theory Spec2Isabelle
  imports Complex_Main "HOL-Library.AList"
begin

section \<open>Pricing model (sdk/typescript/src/pricing.ts)\<close>

text \<open>
  A JavaScript \<open>number\<close> is kept abstract wherever the code only moves it around or
  feeds it to \<open>*\<close> and \<open>+\<close>: the pricing definitions are polymorphic in the
  number type \<open>'n\<close>, so what is proved of them holds for every reading of the two
  operators. \<open>number | null\<close> is \<open>'n option\<close>, with \<open>None\<close> for \<open>null\<close>.
\<close>

record 'n ModelPricing =
  inputCostPerToken :: 'n
  outputCostPerToken :: 'n

record 'n CostResult =
  inputCost :: "'n option"
  outputCost :: "'n option"
  totalCost :: "'n option"

text \<open>
  \<open>Record<string, ModelPricing>\<close> is the list of its entries, as
  \<open>Object.entries\<close> yields them; the keys of a JavaScript object are distinct.
  The bundled prices are the decimal literals of the source.
\<close>

type_synonym 'n pricing_record = "(string \<times> 'n ModelPricing) list"

definition DEFAULT_PRICING :: "('n::field) pricing_record" where
  "DEFAULT_PRICING =
    [(''openai/gpt-4o'',
        \<lparr>inputCostPerToken = 25 / 10000000, outputCostPerToken = 1 / 100000\<rparr>),
     (''openai/gpt-4o-mini'',
        \<lparr>inputCostPerToken = 15 / 100000000, outputCostPerToken = 6 / 10000000\<rparr>),
     (''anthropic/claude-3-5-sonnet-20241022'',
        \<lparr>inputCostPerToken = 3 / 1000000, outputCostPerToken = 15 / 1000000\<rparr>),
     (''anthropic/claude-3-haiku-20240307'',
        \<lparr>inputCostPerToken = 25 / 100000000, outputCostPerToken = 125 / 100000000\<rparr>),
     (''google/gemini-1.5-pro'',
        \<lparr>inputCostPerToken = 125 / 100000000, outputCostPerToken = 5 / 1000000\<rparr>),
     (''google/gemini-1.5-flash'',
        \<lparr>inputCostPerToken = 75 / 1000000000, outputCostPerToken = 3 / 10000000\<rparr>)]"

text \<open>The class has one field, the \<open>Map\<close> from lookup key to pricing.\<close>

record 'n PricingModel =
  table :: "string \<rightharpoonup> 'n ModelPricing"

text \<open>\<open>for (const [key, value] of entries) this.table.set(key, value)\<close>\<close>

fun set_entries :: "'n PricingModel \<Rightarrow> 'n pricing_record \<Rightarrow> 'n PricingModel" where
  "set_entries this [] = this"
| "set_entries this ((key, v) # rest) =
     set_entries (this\<lparr>table := (table this)(key \<mapsto> v)\<rparr>) rest"

text \<open>
  The constructor: an empty map, then the bundled defaults, then the overrides when
  the argument is given (\<open>None\<close> is the omitted argument).
\<close>

definition new_PricingModel :: "('n::field) pricing_record option \<Rightarrow> 'n PricingModel" where
  "new_PricingModel overrides =
    (let this = set_entries \<lparr>table = Map.empty\<rparr> DEFAULT_PRICING
     in case overrides of
          None \<Rightarrow> this
        | Some entries \<Rightarrow> set_entries this entries)"

definition get :: "'n PricingModel \<Rightarrow> string \<Rightarrow> string \<Rightarrow> 'n ModelPricing option" where
  "get this provider model = (let key = provider @ ''/'' @ model in table this key)"

definition computeCost ::
  "('n::{times,plus}) PricingModel \<Rightarrow> string \<Rightarrow> string \<Rightarrow> 'n option \<Rightarrow> 'n option \<Rightarrow> 'n CostResult"
where
  "computeCost this provider model inputTokens outputTokens =
    (let pricing = get this provider model;
         ic = (if pricing \<noteq> None \<and> inputTokens \<noteq> None
               then Some (inputCostPerToken (the pricing) * the inputTokens) else None);
         oc = (if pricing \<noteq> None \<and> outputTokens \<noteq> None
               then Some (outputCostPerToken (the pricing) * the outputTokens) else None);
         tc = (if ic \<noteq> None \<and> oc \<noteq> None then Some (the ic + the oc) else None)
     in \<lparr>inputCost = ic, outputCost = oc, totalCost = tc\<rparr>)"

definition update :: "'n PricingModel \<Rightarrow> string \<Rightarrow> 'n \<Rightarrow> 'n \<Rightarrow> 'n PricingModel" where
  "update this modelKey i_cost o_cost =
    this\<lparr>table := (table this)(modelKey \<mapsto>
      \<lparr>inputCostPerToken = i_cost, outputCostPerToken = o_cost\<rparr>)\<rparr>"

section \<open>OTLP JSON shapes (interfaces of sdk/typescript/src/exporter.ts)\<close>

text \<open>
  The value of an OTLP attribute is one of four tagged alternatives; \<open>intValue\<close>
  carries a string, \<open>doubleValue\<close> a number.
\<close>

datatype 'n OtlpValue =
    intValue string
  | doubleValue 'n
  | stringValue string
  | boolValue bool

record 'n OtlpAttribute =
  key :: string
  "value" :: "'n OtlpValue"

record 'n OtlpSpan =
  traceId :: string
  spanId :: string
  name :: string
  startTimeUnixNano :: string
  endTimeUnixNano :: string
  attributes :: "'n OtlpAttribute list"

record 'n ScopeSpans =
  spans :: "'n OtlpSpan list"

record 'n ResourceSpans =
  scopeSpans :: "'n ScopeSpans list"

record 'n OtlpPayload =
  resourceSpans :: "'n ResourceSpans list"

section \<open>Span attributes and context (attributes.ts, context.ts)\<close>

definition PIPELINE_ID :: string where "PIPELINE_ID = ''hikari.pipeline_id''"
definition STAGE :: string where "STAGE = ''hikari.stage''"
definition MODEL :: string where "MODEL = ''hikari.model''"
definition PROVIDER :: string where "PROVIDER = ''hikari.provider''"
definition TOKENS_INPUT :: string where "TOKENS_INPUT = ''hikari.tokens.input''"
definition TOKENS_OUTPUT :: string where "TOKENS_OUTPUT = ''hikari.tokens.output''"
definition COST_INPUT :: string where "COST_INPUT = ''hikari.cost.input''"
definition COST_OUTPUT :: string where "COST_OUTPUT = ''hikari.cost.output''"
definition COST_TOTAL :: string where "COST_TOTAL = ''hikari.cost.total''"

text \<open>
  The store of the \<open>AsyncLocalStorage\<close> is \<open>None\<close> outside any context;
  \<open>storage.getStore()?.pipelineId\<close> is then \<open>undefined\<close>, as it is when the
  field is not set.
\<close>

record HikariContext =
  pipelineId :: "string option"
  stage :: "string option"

definition getPipelineId :: "HikariContext option \<Rightarrow> string option" where
  "getPipelineId store = (case store of None \<Rightarrow> None | Some c \<Rightarrow> pipelineId c)"

definition getStage :: "HikariContext option \<Rightarrow> string option" where
  "getStage store = (case store of None \<Rightarrow> None | Some c \<Rightarrow> HikariContext.stage c)"

section \<open>Spans, as the OpenTelemetry API hands them to the wrappers\<close>

text \<open>
  An attribute value is a number, a string, a boolean or an array; the payload of an
  array is left out, no function of the repository reads it.
\<close>

datatype 'n AttributeValue =
    NumberValue 'n
  | StringValue string
  | BooleanValue bool
  | ArrayValue

record SpanContext =
  traceId :: string
  spanId :: string

text \<open>
  \<open>attributes\<close> is the attribute object as \<open>Object.entries\<close> lists it;
  \<open>startTime\<close> and \<open>endTime\<close> are \<open>[seconds, nanoseconds]\<close>; \<open>ended\<close> records
  that \<open>end()\<close> was called.
\<close>

record 'n Span =
  name :: string
  spanContext :: SpanContext
  startTime :: "int \<times> int"
  endTime :: "int \<times> int"
  attributes :: "(string \<times> 'n AttributeValue) list"
  ended :: bool

text \<open>What JavaScript throws: a \<open>TypeError\<close> of the engine, or any other error object.\<close>

datatype error = TypeError | Error string

text \<open>
  A statement of a \<open>try\<close> block acts on the span and may throw; the span it leaves
  behind is kept either way. A block runs its statements in order up to the first
  that throws.
\<close>

type_synonym 'n stmt = "'n Span \<Rightarrow> error option \<times> 'n Span"

fun run_stmts :: "'n stmt list \<Rightarrow> 'n stmt" where
  "run_stmts [] sp = (None, sp)"
| "run_stmts (st # rest) sp =
     (case st sp of
        (Some err, sp') \<Rightarrow> (Some err, sp')
      | (None, sp') \<Rightarrow> run_stmts rest sp')"

text \<open>\<open>if (c) st\<close>\<close>

definition when_stmt :: "bool \<Rightarrow> 'n stmt \<Rightarrow> 'n stmt" where
  "when_stmt c st = (if c then st else (\<lambda>sp. (None, sp)))"

text \<open>
  The tracer is OpenTelemetry's, not the repository's. It is a parameter of the
  wrappers: \<open>startSpan\<close> is the span that \<open>tracer.startActiveSpan(spanName, ...)\<close>
  creates and passes to its callback, \<open>setAttribute\<close> is the method of that span,
  which may do anything to the span and may throw. \<open>startActiveSpan\<close> itself and
  \<open>span.end()\<close> are taken not to throw.
\<close>

record 'n Tracer =
  startSpan :: "string \<Rightarrow> 'n Span"
  setAttribute :: "string \<Rightarrow> 'n AttributeValue \<Rightarrow> 'n stmt"

definition span_end :: "'n Span \<Rightarrow> 'n Span" where
  "span_end sp = sp\<lparr>ended := True\<rparr>"

text \<open>
  The tracer of the OpenTelemetry SDK: a new span has the given name and no
  attributes, and \<open>setAttribute\<close> stores the value under the key (in place when the
  key is there, at the end otherwise) and does not throw.
\<close>

definition sdk_setAttribute :: "string \<Rightarrow> 'n AttributeValue \<Rightarrow> 'n stmt" where
  "sdk_setAttribute k v sp = (None, sp\<lparr>attributes := AList.update k v (attributes sp)\<rparr>)"

definition sdk_tracer :: "SpanContext \<Rightarrow> int \<times> int \<Rightarrow> 'n Tracer" where
  "sdk_tracer ctx now =
     \<lparr>startSpan = (\<lambda>spanName.
        \<lparr>name = spanName, spanContext = ctx, startTime = now, endTime = now,
         attributes = [], ended = False\<rparr>),
      setAttribute = sdk_setAttribute\<rparr>"

text \<open>
  How an awaited call ends: the promise resolves with a value, rejects with an error
  (a synchronous throw of the callee inside the \<open>async\<close> function is a rejection
  too), or never settles.
\<close>

datatype 'r outcome = Resolved 'r | Rejected error | Pending

text \<open>
  The \<open>pricing\<close> argument of a wrapper is an object; what the wrapper uses of it
  is its \<open>computeCost\<close> method, which for an arbitrary object may throw. The
  repository's own class never does.
\<close>

type_synonym 'n pricing_obj =
  "string \<Rightarrow> string \<Rightarrow> 'n option \<Rightarrow> 'n option \<Rightarrow> error + 'n CostResult"

definition PricingModel_obj :: "('n::{times,plus}) PricingModel \<Rightarrow> 'n pricing_obj" where
  "PricingModel_obj this provider model inputTokens outputTokens =
     Inr (computeCost this provider model inputTokens outputTokens)"

text \<open>
  The first call argument, \<open>(args[0] as Record<string, unknown>) ?? {}\<close>, read only
  at its \<open>model\<close> entry.
\<close>

type_synonym kwargs = "string \<rightharpoonup> string"

definition first_kwargs :: "kwargs list \<Rightarrow> kwargs" where
  "first_kwargs args = (case args of [] \<Rightarrow> Map.empty | a # _ \<Rightarrow> a)"

text \<open>\<open>if (pipelineId)\<close>: \<open>undefined\<close> and the empty string are falsy.\<close>

definition truthy :: "string option \<Rightarrow> bool" where
  "truthy s = (case s of None \<Rightarrow> False | Some v \<Rightarrow> v \<noteq> [])"

section \<open>OpenAI wrapper (sdk/typescript/src/providers/openai.ts)\<close>

record 'n OpenAIUsage =
  prompt_tokens :: "'n option"
  completion_tokens :: "'n option"

record 'n OpenAIResponse =
  usage :: "'n OpenAIUsage option"
  model :: "string option"

definition openai_PROVIDER_NAME :: string where
  "openai_PROVIDER_NAME = ''openai''"

definition openai_extractTokens :: "'n OpenAIResponse \<Rightarrow> 'n option \<times> 'n option" where
  "openai_extractTokens response =
     (case OpenAIResponse.usage response of
        None \<Rightarrow> (None, None)
      | Some u \<Rightarrow> (prompt_tokens u, completion_tokens u))"

definition openai_extractModel :: "'n OpenAIResponse \<Rightarrow> kwargs \<Rightarrow> string" where
  "openai_extractModel response kw =
     (case OpenAIResponse.model response of
        Some m \<Rightarrow> m
      | None \<Rightarrow> (case kw ''model'' of Some m \<Rightarrow> m | None \<Rightarrow> ''unknown''))"

text \<open>
  The inner \<open>try\<close> block of \<open>makeWrapper\<close>. The response is \<open>None\<close> when the
  promise resolved with \<open>null\<close> or \<open>undefined\<close>; \<open>response.usage\<close> then throws a
  \<open>TypeError\<close> before any attribute is set.
\<close>

definition openai_try_block ::
  "'n pricing_obj \<Rightarrow> 'n Tracer \<Rightarrow> HikariContext option \<Rightarrow> string \<Rightarrow> kwargs list \<Rightarrow>
   'n OpenAIResponse option \<Rightarrow> 'n stmt"
where
  "openai_try_block pricing tracer store stageName args response sp =
     (case response of
        None \<Rightarrow> (Some TypeError, sp)
      | Some r \<Rightarrow>
         (let (inputTokens, outputTokens) = openai_extractTokens r;
              kw = first_kwargs args;
              modelName = openai_extractModel r kw;
              pipeline = getPipelineId store
          in case run_stmts
                [when_stmt (truthy pipeline)
                   (setAttribute tracer PIPELINE_ID (StringValue (the pipeline))),
                 setAttribute tracer STAGE (StringValue stageName),
                 setAttribute tracer MODEL (StringValue modelName),
                 setAttribute tracer PROVIDER (StringValue openai_PROVIDER_NAME),
                 when_stmt (inputTokens \<noteq> None)
                   (setAttribute tracer TOKENS_INPUT (NumberValue (the inputTokens))),
                 when_stmt (outputTokens \<noteq> None)
                   (setAttribute tracer TOKENS_OUTPUT (NumberValue (the outputTokens)))]
                sp of
               (Some err, span1) \<Rightarrow> (Some err, span1)
             | (None, span1) \<Rightarrow>
                (case pricing openai_PROVIDER_NAME modelName inputTokens outputTokens of
                   Inl err \<Rightarrow> (Some err, span1)
                 | Inr cost \<Rightarrow>
                    run_stmts
                      [when_stmt (inputCost cost \<noteq> None)
                         (setAttribute tracer COST_INPUT (NumberValue (the (inputCost cost)))),
                       when_stmt (outputCost cost \<noteq> None)
                         (setAttribute tracer COST_OUTPUT (NumberValue (the (outputCost cost)))),
                       when_stmt (totalCost cost \<noteq> None)
                         (setAttribute tracer COST_TOTAL (NumberValue (the (totalCost cost))))]
                      span1)))"

text \<open>
  The wrapped method, run on the call arguments: the outcome the caller sees and the
  span as the call leaves it. \<open>original\<close> gives the outcome of the patched client
  method on these arguments. An error of the inner block is caught and only logged.
\<close>

definition openai_makeWrapper ::
  "(kwargs list \<Rightarrow> 'n OpenAIResponse option outcome) \<Rightarrow> 'n pricing_obj \<Rightarrow> 'n Tracer \<Rightarrow>
   HikariContext option \<Rightarrow> kwargs list \<Rightarrow> 'n OpenAIResponse option outcome \<times> 'n Span"
where
  "openai_makeWrapper original pricing tracer store args =
     (let spanName = ''openai.chat.completions.create'';
          stageName = (case getStage store of Some s \<Rightarrow> s | None \<Rightarrow> spanName);
          sp = startSpan tracer spanName
      in case original args of
           Resolved response \<Rightarrow>
             (let (caught, span1) =
                    openai_try_block pricing tracer store stageName args response sp
              in (Resolved response, span_end span1))
         | Rejected err \<Rightarrow> (Rejected err, span_end sp)
         | Pending \<Rightarrow> (Pending, sp))"

section \<open>Anthropic wrapper (second module of sdk/typescript/src/exporter.ts)\<close>

record 'n AnthropicUsage =
  input_tokens :: "'n option"
  output_tokens :: "'n option"

record 'n AnthropicResponse =
  usage :: "'n AnthropicUsage option"
  model :: "string option"

definition anthropic_PROVIDER_NAME :: string where
  "anthropic_PROVIDER_NAME = ''anthropic''"

definition anthropic_extractTokens :: "'n AnthropicResponse \<Rightarrow> 'n option \<times> 'n option" where
  "anthropic_extractTokens response =
     (case AnthropicResponse.usage response of
        None \<Rightarrow> (None, None)
      | Some u \<Rightarrow> (input_tokens u, output_tokens u))"

definition anthropic_extractModel :: "'n AnthropicResponse \<Rightarrow> kwargs \<Rightarrow> string" where
  "anthropic_extractModel response kw =
     (case AnthropicResponse.model response of
        Some m \<Rightarrow> m
      | None \<Rightarrow> (case kw ''model'' of Some m \<Rightarrow> m | None \<Rightarrow> ''unknown''))"

definition anthropic_try_block ::
  "'n pricing_obj \<Rightarrow> 'n Tracer \<Rightarrow> HikariContext option \<Rightarrow> string \<Rightarrow> kwargs list \<Rightarrow>
   'n AnthropicResponse option \<Rightarrow> 'n stmt"
where
  "anthropic_try_block pricing tracer store stageName args response sp =
     (case response of
        None \<Rightarrow> (Some TypeError, sp)
      | Some r \<Rightarrow>
         (let (inputTokens, outputTokens) = anthropic_extractTokens r;
              kw = first_kwargs args;
              modelName = anthropic_extractModel r kw;
              pipeline = getPipelineId store
          in case run_stmts
                [when_stmt (truthy pipeline)
                   (setAttribute tracer PIPELINE_ID (StringValue (the pipeline))),
                 setAttribute tracer STAGE (StringValue stageName),
                 setAttribute tracer MODEL (StringValue modelName),
                 setAttribute tracer PROVIDER (StringValue anthropic_PROVIDER_NAME),
                 when_stmt (inputTokens \<noteq> None)
                   (setAttribute tracer TOKENS_INPUT (NumberValue (the inputTokens))),
                 when_stmt (outputTokens \<noteq> None)
                   (setAttribute tracer TOKENS_OUTPUT (NumberValue (the outputTokens)))]
                sp of
               (Some err, span1) \<Rightarrow> (Some err, span1)
             | (None, span1) \<Rightarrow>
                (case pricing anthropic_PROVIDER_NAME modelName inputTokens outputTokens of
                   Inl err \<Rightarrow> (Some err, span1)
                 | Inr cost \<Rightarrow>
                    run_stmts
                      [when_stmt (inputCost cost \<noteq> None)
                         (setAttribute tracer COST_INPUT (NumberValue (the (inputCost cost)))),
                       when_stmt (outputCost cost \<noteq> None)
                         (setAttribute tracer COST_OUTPUT (NumberValue (the (outputCost cost)))),
                       when_stmt (totalCost cost \<noteq> None)
                         (setAttribute tracer COST_TOTAL (NumberValue (the (totalCost cost))))]
                      span1)))"

definition anthropic_makeWrapper ::
  "(kwargs list \<Rightarrow> 'n AnthropicResponse option outcome) \<Rightarrow> 'n pricing_obj \<Rightarrow> 'n Tracer \<Rightarrow>
   HikariContext option \<Rightarrow> kwargs list \<Rightarrow> 'n AnthropicResponse option outcome \<times> 'n Span"
where
  "anthropic_makeWrapper original pricing tracer store args =
     (let spanName = ''anthropic.messages.create'';
          stageName = (case getStage store of Some s \<Rightarrow> s | None \<Rightarrow> spanName);
          sp = startSpan tracer spanName
      in case original args of
           Resolved response \<Rightarrow>
             (let (caught, span1) =
                    anthropic_try_block pricing tracer store stageName args response sp
              in (Resolved response, span_end span1))
         | Rejected err \<Rightarrow> (Rejected err, span_end sp)
         | Pending \<Rightarrow> (Pending, sp))"

section \<open>Google wrapper (sdk/typescript/src/providers/google.ts)\<close>

record 'n GoogleUsageMetadata =
  promptTokenCount :: "'n option"
  candidatesTokenCount :: "'n option"

record 'n GoogleResponse =
  usageMetadata :: "'n GoogleUsageMetadata option"

definition google_PROVIDER_NAME :: string where
  "google_PROVIDER_NAME = ''google''"

definition google_extractTokens :: "'n GoogleResponse \<Rightarrow> 'n option \<times> 'n option" where
  "google_extractTokens response =
     (case usageMetadata response of
        None \<Rightarrow> (None, None)
      | Some u \<Rightarrow> (promptTokenCount u, candidatesTokenCount u))"

text \<open>
  Here the model name is an argument of \<open>makeWrapper\<close>, read from the model
  instance when \<open>getGenerativeModel\<close> is patched; the call arguments are passed to
  \<open>original\<close> only.
\<close>

definition google_try_block ::
  "'n pricing_obj \<Rightarrow> 'n Tracer \<Rightarrow> HikariContext option \<Rightarrow> string \<Rightarrow> string \<Rightarrow>
   'n GoogleResponse option \<Rightarrow> 'n stmt"
where
  "google_try_block pricing tracer store stageName modelName response sp =
     (case response of
        None \<Rightarrow> (Some TypeError, sp)
      | Some r \<Rightarrow>
         (let (inputTokens, outputTokens) = google_extractTokens r;
              pipeline = getPipelineId store
          in case run_stmts
                [when_stmt (truthy pipeline)
                   (setAttribute tracer PIPELINE_ID (StringValue (the pipeline))),
                 setAttribute tracer STAGE (StringValue stageName),
                 setAttribute tracer MODEL (StringValue modelName),
                 setAttribute tracer PROVIDER (StringValue google_PROVIDER_NAME),
                 when_stmt (inputTokens \<noteq> None)
                   (setAttribute tracer TOKENS_INPUT (NumberValue (the inputTokens))),
                 when_stmt (outputTokens \<noteq> None)
                   (setAttribute tracer TOKENS_OUTPUT (NumberValue (the outputTokens)))]
                sp of
               (Some err, span1) \<Rightarrow> (Some err, span1)
             | (None, span1) \<Rightarrow>
                (case pricing google_PROVIDER_NAME modelName inputTokens outputTokens of
                   Inl err \<Rightarrow> (Some err, span1)
                 | Inr cost \<Rightarrow>
                    run_stmts
                      [when_stmt (inputCost cost \<noteq> None)
                         (setAttribute tracer COST_INPUT (NumberValue (the (inputCost cost)))),
                       when_stmt (outputCost cost \<noteq> None)
                         (setAttribute tracer COST_OUTPUT (NumberValue (the (outputCost cost)))),
                       when_stmt (totalCost cost \<noteq> None)
                         (setAttribute tracer COST_TOTAL (NumberValue (the (totalCost cost))))]
                      span1)))"

definition google_makeWrapper ::
  "('a list \<Rightarrow> 'n GoogleResponse option outcome) \<Rightarrow> string \<Rightarrow> 'n pricing_obj \<Rightarrow> 'n Tracer \<Rightarrow>
   HikariContext option \<Rightarrow> 'a list \<Rightarrow> 'n GoogleResponse option outcome \<times> 'n Span"
where
  "google_makeWrapper original modelName pricing tracer store args =
     (let spanName = ''google.generativeai.generate_content'';
          stageName = (case getStage store of Some s \<Rightarrow> s | None \<Rightarrow> spanName);
          sp = startSpan tracer spanName
      in case original args of
           Resolved response \<Rightarrow>
             (let (caught, span1) =
                    google_try_block pricing tracer store stageName modelName response sp
              in (Resolved response, span_end span1))
         | Rejected err \<Rightarrow> (Rejected err, span_end sp)
         | Pending \<Rightarrow> (Pending, sp))"

section \<open>Span exporter (first module of sdk/typescript/src/exporter.ts)\<close>

text \<open>
  In this module a number is a real: \<open>Number.isInteger\<close>, \<open>String\<close> and the
  comparisons look at its value. The numbers of a running program are IEEE doubles;
  where the source computes an integer that may not be one, the model rounds it
  (\<open>round_to_double\<close>). NaN, the infinities and overflow are not modelled.
\<close>

definition isInteger :: "real \<Rightarrow> bool" where
  "isInteger v = (of_int \<lfloor>v\<rfloor> = v)"

text \<open>
  The double nearest to a natural number, ties going to the even significand: up to
  \<open>2^53\<close> the number itself, beyond that the nearest multiple of the power of
  two \<open>2^e\<close> that leaves 53 significant bits (\<open>round_at\<close>).
\<close>

fun bit_length :: "nat \<Rightarrow> nat" where
  "bit_length n = (if n = 0 then 0 else Suc (bit_length (n div 2)))"

declare bit_length.simps [simp del]

definition round_at :: "nat \<Rightarrow> nat \<Rightarrow> nat" where
  "round_at n e =
     (if 2 ^ (e - 1) < n mod 2 ^ e \<or> (n mod 2 ^ e = 2 ^ (e - 1) \<and> odd (n div 2 ^ e))
      then n div 2 ^ e + 1 else n div 2 ^ e) * 2 ^ e"

definition round_to_double :: "nat \<Rightarrow> nat" where
  "round_to_double n = (if n < 2 ^ 53 then n else round_at n (bit_length n - 53))"

definition to_double :: "int \<Rightarrow> int" where
  "to_double x =
     (if x < 0 then - int (round_to_double (nat (- x))) else int (round_to_double (nat x)))"

text \<open>
  \<open>String(value)\<close> for an integer-valued number, after ECMAScript's
  \<open>Number::toString\<close>. The digits printed are those of the decimal with the
  fewest significant digits that still rounds to the double, the nearest such to
  the value (\<open>shortest_decimal\<close>: for each power of ten \<open>p\<close>, from the
  highest down, the two multiples of \<open>p\<close> around the value are tried). Up to
  \<open>2^53\<close> every integer is a double and is its own shortest decimal. Below
  \<open>10^21\<close> the decimal is printed in full; from \<open>10^21\<close> on in exponent
  notation, its significant digits with a point after the first, then \<open>e+\<close> and
  the decimal exponent.
\<close>

definition digit_char :: "nat \<Rightarrow> char" where
  "digit_char d = ''0123456789'' ! d"

fun digits10 :: "nat \<Rightarrow> string" where
  "digits10 n = (if n < 10 then [digit_char n] else digits10 (n div 10) @ [digit_char (n mod 10)])"

declare digits10.simps [simp del]

definition nearer :: "nat \<Rightarrow> nat \<Rightarrow> nat \<Rightarrow> bool \<Rightarrow> bool \<Rightarrow> nat option" where
  "nearer v lo hi ok_lo ok_hi =
     (if ok_lo \<and> ok_hi then
        (if v - lo < hi - v \<or> (v - lo = hi - v \<and> even (lo div (hi - lo))) then Some lo
         else Some hi)
      else if ok_lo then Some lo
      else if ok_hi then Some hi
      else None)"

definition around :: "nat \<Rightarrow> nat \<Rightarrow> nat \<Rightarrow> nat option" where
  "around v lo hi = nearer v lo hi (round_to_double lo = v) (round_to_double hi = v)"

definition shortest_with :: "nat \<Rightarrow> nat \<Rightarrow> nat option" where
  "shortest_with v p = around v ((v div p) * p) ((v div p) * p + p)"

fun shortest_from :: "nat \<Rightarrow> nat \<Rightarrow> nat" where
  "shortest_from v j =
     (if j = 0 then v
      else case shortest_with v (10 ^ j) of
             Some m \<Rightarrow> m
           | None \<Rightarrow> shortest_from v (j - 1))"

declare shortest_from.simps [simp del]

definition shortest_decimal :: "nat \<Rightarrow> nat" where
  "shortest_decimal v = shortest_from v (length (digits10 v) - 1)"

definition exponent_form :: "nat \<Rightarrow> string" where
  "exponent_form n =
     (let ds = digits10 n;
          s = rev (dropWhile (\<lambda>c. c = CHR ''0'') (rev ds))
      in (if length s = 1 then s else hd s # CHR ''.'' # tl s)
         @ ''e+'' @ digits10 (length ds - 1))"

definition NumberToString :: "int \<Rightarrow> string" where
  "NumberToString x =
     (let n = nat \<bar>x\<bar>;
          m = (if n \<le> 2 ^ 53 then n else shortest_decimal n);
          body = (if m < 10 ^ 21 then digits10 m else exponent_form m)
      in if x < 0 then CHR ''-'' # body else body)"

text \<open>
  The body of the loop over \<open>Object.entries(span.attributes)\<close>: at most one OTLP
  attribute is pushed per entry; a value that is neither number, string nor boolean
  pushes none. A span always has its attribute object, so the test
  \<open>if (span.attributes)\<close> passes. The two time stamps of \<open>spanToOtlp\<close> are
  beyond \<open>2^53\<close>: the product and the sum are each rounded to a double.
\<close>

fun otlp_attribute :: "string \<times> real AttributeValue \<Rightarrow> real OtlpAttribute list" where
  "otlp_attribute (k, NumberValue v) =
     (if isInteger v then [\<lparr>key = k, value = intValue (NumberToString \<lfloor>v\<rfloor>)\<rparr>]
      else [\<lparr>key = k, value = doubleValue v\<rparr>])"
| "otlp_attribute (k, StringValue s) = [\<lparr>key = k, value = stringValue s\<rparr>]"
| "otlp_attribute (k, BooleanValue b) = [\<lparr>key = k, value = boolValue b\<rparr>]"
| "otlp_attribute (k, ArrayValue) = []"

definition spanToOtlp :: "real Span \<Rightarrow> real OtlpSpan" where
  "spanToOtlp sp =
     (let attrs = concat (map otlp_attribute (Span.attributes sp));
          context = spanContext sp
      in \<lparr>OtlpSpan.traceId = SpanContext.traceId context,
          OtlpSpan.spanId = SpanContext.spanId context,
          OtlpSpan.name = Span.name sp,
          startTimeUnixNano =
            NumberToString
              (to_double (to_double (fst (startTime sp) * 1000000000) + snd (startTime sp))),
          endTimeUnixNano =
            NumberToString
              (to_double (to_double (fst (endTime sp) * 1000000000) + snd (endTime sp))),
          OtlpSpan.attributes = attrs\<rparr>)"

text \<open>
  The exporter object. The three sizes are numbers, stored as the constructor gets
  them, so they need not be whole or positive; \<open>flushTimer\<close> tells whether the
  interval timer is set.
\<close>

record HikariSpanExporter =
  endpoint :: string
  maxQueueSize :: real
  batchSize :: real
  flushIntervalMs :: real
  queue :: "real Span list"
  shutdown_flag :: bool
  flushTimer :: bool

text \<open>
  The constructor, on the four optional fields of its \<open>config\<close> argument; a
  trailing slash of the endpoint is removed, and the timer is started.
\<close>

definition new_HikariSpanExporter ::
  "string option \<Rightarrow> real option \<Rightarrow> real option \<Rightarrow> real option \<Rightarrow> HikariSpanExporter"
where
  "new_HikariSpanExporter c_endpoint c_maxQueueSize c_batchSize c_flushIntervalMs =
     (let e = (case c_endpoint of None \<Rightarrow> ''http://localhost:8000'' | Some s \<Rightarrow> s)
      in \<lparr>endpoint = (if e \<noteq> [] \<and> last e = CHR ''/'' then butlast e else e),
          maxQueueSize = (case c_maxQueueSize of None \<Rightarrow> 10000 | Some n \<Rightarrow> n),
          batchSize = (case c_batchSize of None \<Rightarrow> 100 | Some n \<Rightarrow> n),
          flushIntervalMs = (case c_flushIntervalMs of None \<Rightarrow> 5000 | Some n \<Rightarrow> n),
          queue = [],
          shutdown_flag = False,
          flushTimer = True\<rparr>)"

text \<open>
  \<open>flushBatch\<close>, up to its first \<open>await\<close>: the new state and the payload handed to
  \<open>sendWithRetry\<close>, \<open>None\<close> when it returns before sending.
  \<open>splice(0, batchSize)\<close> drops the fraction of \<open>batchSize\<close> and removes no
  element when it is negative.
\<close>

definition flushBatch :: "HikariSpanExporter \<Rightarrow> HikariSpanExporter \<times> real OtlpPayload option" where
  "flushBatch this =
     (if length (queue this) = 0 then (this, None)
      else
        let batch = take (nat \<lfloor>batchSize this\<rfloor>) (queue this);
            this1 = this\<lparr>queue := drop (nat \<lfloor>batchSize this\<rfloor>) (queue this)\<rparr>
        in if length batch = 0 then (this1, None)
           else
             let otlpSpans = map spanToOtlp batch;
                 payload = \<lparr>resourceSpans = [\<lparr>scopeSpans = [\<lparr>spans = otlpSpans\<rparr>]\<rparr>]\<rparr>
             in (this1, Some payload))"

text \<open>
  The \<open>for\<close> loop of \<open>export\<close>: \<open>shift\<close> on an empty array removes nothing.
\<close>

fun export_loop :: "HikariSpanExporter \<Rightarrow> real Span list \<Rightarrow> HikariSpanExporter" where
  "export_loop this [] = this"
| "export_loop this (sp # rest) =
     (let this1 = (if maxQueueSize this \<le> real (length (queue this))
                   then this\<lparr>queue := tl (queue this)\<rparr> else this);
          this2 = this1\<lparr>queue := queue this1 @ [sp]\<rparr>
      in export_loop this2 rest)"

datatype ExportResultCode = SUCCESS | FAILED

text \<open>
  \<open>export\<close>: the new state, the payload sent by the flush it may start, and the
  code passed to \<open>resultCallback\<close>. The call of \<open>flushBatch\<close> runs to its first
  \<open>await\<close> before \<open>export\<close> goes on; a rejection of its promise is swallowed.
\<close>

definition export ::
  "HikariSpanExporter \<Rightarrow> real Span list \<Rightarrow>
   HikariSpanExporter \<times> real OtlpPayload option \<times> ExportResultCode"
where
  "export this sps =
     (if shutdown_flag this then (this, None, SUCCESS)
      else
        let this1 = export_loop this sps;
            (this2, sent) = (if batchSize this1 \<le> real (length (queue this1))
                             then flushBatch this1 else (this1, None))
        in (this2, sent, SUCCESS))"

text \<open>
  \<open>shutdown\<close>, up to the first \<open>await\<close> of its flush: the flag is set, the timer
  cleared, and one batch flushed.
\<close>

definition shutdown :: "HikariSpanExporter \<Rightarrow> HikariSpanExporter \<times> real OtlpPayload option" where
  "shutdown this = flushBatch (this\<lparr>shutdown_flag := True, flushTimer := False\<rparr>)"

section \<open>A consumer of the OTLP attributes\<close>

text \<open>
  Modelled from the spec: the collector's decoder is not among the sources. The spec
  has it accept an integer as a decimal string and a double that arrives as an
  integer-valued number, and keep numbers as floating point. A decimal string is a
  non-empty run of digits with an optional minus sign in front.
\<close>

definition is_digit :: "char \<Rightarrow> bool" where
  "is_digit c = (48 \<le> (of_char c :: nat) \<and> (of_char c :: nat) \<le> 57)"

definition is_decimal_string :: "string \<Rightarrow> bool" where
  "is_decimal_string s =
     (case s of
        [] \<Rightarrow> False
      | c # cs \<Rightarrow> if c = CHR ''-'' then cs \<noteq> [] \<and> list_all is_digit cs
                  else list_all is_digit s)"

definition parse_nat :: "string \<Rightarrow> nat" where
  "parse_nat s = foldl (\<lambda>acc c. 10 * acc + (of_char c - 48)) 0 s"

definition parse_int :: "string \<Rightarrow> int" where
  "parse_int s =
     (case s of
        [] \<Rightarrow> 0
      | c # cs \<Rightarrow> if c = CHR ''-'' then - int (parse_nat cs) else int (parse_nat s))"

definition consumer_decode :: "real OtlpValue \<Rightarrow> real AttributeValue option" where
  "consumer_decode w =
     (case w of
        intValue s \<Rightarrow>
          if is_decimal_string s then Some (NumberValue (of_int (parse_int s))) else None
      | doubleValue d \<Rightarrow> Some (NumberValue d)
      | stringValue s \<Rightarrow> Some (StringValue s)
      | boolValue b \<Rightarrow> Some (BooleanValue b))"

text \<open>
  What the specification says of one attribute value \<open>v\<close> and its OTLP value
  \<open>w\<close>: an integer-valued number goes to \<open>intValue\<close> with a decimal string that
  reads back as the number, any other number to \<open>doubleValue\<close> with the number
  itself, a string to \<open>stringValue\<close>, a boolean to \<open>boolValue\<close>.
\<close>

definition encodes :: "real AttributeValue \<Rightarrow> real OtlpValue \<Rightarrow> bool" where
  "encodes v w =
     (case v of
        NumberValue x \<Rightarrow>
          (case w of
             intValue s \<Rightarrow> isInteger x \<and> is_decimal_string s \<and> of_int (parse_int s) = x
           | doubleValue d \<Rightarrow> \<not> isInteger x \<and> d = x
           | _ \<Rightarrow> False)
      | StringValue s \<Rightarrow> w = stringValue s
      | BooleanValue b \<Rightarrow> w = boolValue b
      | ArrayValue \<Rightarrow> False)"

text \<open>
  The attribute values that are no integer beyond \<open>2^53\<close>: for them \<open>String\<close>
  prints the digits of the value itself.
\<close>

definition in_safe_range :: "real AttributeValue \<Rightarrow> bool" where
  "in_safe_range v =
     (case v of NumberValue x \<Rightarrow> isInteger x \<longrightarrow> \<bar>x\<bar> \<le> 2 ^ 53 | _ \<Rightarrow> True)"

section \<open>The spans table and its continuous aggregates (migrations)\<close>

text \<open>
  A row of the table \<open>spans\<close>. A column without \<open>NOT NULL\<close> is an option, with
  \<open>None\<close> for \<open>NULL\<close>. \<open>time\<close> is in microseconds since the Unix epoch;
  \<open>DOUBLE PRECISION\<close> is a real. A table is the list of its rows, in no particular
  order.
\<close>

record spans_row =
  time :: int
  trace_id :: string
  span_id :: string
  span_name :: string
  pipeline_id :: string
  stage :: string
  model :: string
  provider :: string
  tokens_input :: "int option"
  tokens_output :: "int option"
  cost_input :: "real option"
  cost_output :: "real option"
  cost_total :: "real option"
  duration_ms :: real

text \<open>A row of each of the three views: the five grouping columns and the five aggregates.\<close>

record cost_row =
  bucket :: int
  pipeline_id :: string
  stage :: string
  model :: string
  provider :: string
  total_cost :: "real option"
  total_tokens_input :: "int option"
  total_tokens_output :: "int option"
  span_count :: int
  avg_cost_per_span :: "real option"

text \<open>
  \<open>time_bucket(width, time)\<close> of TimescaleDB: the start of the bucket of the given
  width that holds the time, buckets being aligned to Monday 2000-01-03 00:00 UTC.
\<close>

definition bucket_origin :: int where
  "bucket_origin = 946857600 * 1000000"

definition time_bucket :: "int \<Rightarrow> int \<Rightarrow> int" where
  "time_bucket width t = bucket_origin + ((t - bucket_origin) div width) * width"

definition one_hour :: int where "one_hour = 3600 * 1000000"
definition one_day :: int where "one_day = 24 * one_hour"
definition one_week :: int where "one_week = 7 * one_day"

text \<open>
  The SQL aggregates: \<open>SUM\<close> and \<open>AVG\<close> skip \<open>NULL\<close> inputs and are \<open>NULL\<close>
  when no input is left; \<open>COUNT(*)\<close> counts rows.
\<close>

definition sql_sum :: "('a::monoid_add) option list \<Rightarrow> 'a option" where
  "sql_sum vs =
     (let xs = concat (map (\<lambda>v. case v of None \<Rightarrow> [] | Some x \<Rightarrow> [x]) vs)
      in if xs = [] then None else Some (sum_list xs))"

definition sql_avg :: "real option list \<Rightarrow> real option" where
  "sql_avg vs =
     (let xs = concat (map (\<lambda>v. case v of None \<Rightarrow> [] | Some x \<Rightarrow> [x]) vs)
      in if xs = [] then None else Some (sum_list xs / real (length xs)))"

text \<open>The \<open>GROUP BY\<close> columns of a table row, and the same five columns of a view row.\<close>

type_synonym group_key = "int \<times> string \<times> string \<times> string \<times> string"

definition group_by :: "int \<Rightarrow> spans_row \<Rightarrow> group_key" where
  "group_by width r =
     (time_bucket width (time r), spans_row.pipeline_id r, spans_row.stage r,
      spans_row.model r, spans_row.provider r)"

definition view_key :: "cost_row \<Rightarrow> group_key" where
  "view_key v =
     (bucket v, cost_row.pipeline_id v, cost_row.stage v, cost_row.model v,
      cost_row.provider v)"

text \<open>
  The query the three \<open>CREATE MATERIALIZED VIEW\<close> statements share, for a bucket
  width: \<open>WHERE cost_total IS NOT NULL\<close>, then one output row per group. When the
  views are refreshed is not modelled.
\<close>

definition cost_aggregate :: "int \<Rightarrow> spans_row list \<Rightarrow> cost_row list" where
  "cost_aggregate width tbl =
     (let rows = filter (\<lambda>r. cost_total r \<noteq> None) tbl;
          groups = remdups (map (group_by width) rows)
      in map (\<lambda>(b, p, s, m, pr).
                let g = filter (\<lambda>r. group_by width r = (b, p, s, m, pr)) rows
                in \<lparr>bucket = b,
                    cost_row.pipeline_id = p,
                    cost_row.stage = s,
                    cost_row.model = m,
                    cost_row.provider = pr,
                    total_cost = sql_sum (map cost_total g),
                    total_tokens_input = sql_sum (map tokens_input g),
                    total_tokens_output = sql_sum (map tokens_output g),
                    span_count = int (length g),
                    avg_cost_per_span = sql_avg (map cost_total g)\<rparr>)
             groups)"

definition cost_hourly :: "spans_row list \<Rightarrow> cost_row list" where
  "cost_hourly tbl = cost_aggregate one_hour tbl"

definition cost_daily :: "spans_row list \<Rightarrow> cost_row list" where
  "cost_daily tbl = cost_aggregate one_day tbl"

definition cost_weekly :: "spans_row list \<Rightarrow> cost_row list" where
  "cost_weekly tbl = cost_aggregate one_week tbl"

section \<open>Properties of the pricing model\<close>

lemma table_set_entries:
  "table (set_entries this entries) k =
     (case map_of (rev entries) k of Some v \<Rightarrow> Some v | None \<Rightarrow> table this k)"
proof (induction entries arbitrary: this)
  case Nil
  show ?case by simp
next
  case (Cons e rest)
  obtain key v where e: "e = (key, v)" by (cases e)
  show ?case
    by (simp add: e Cons.IH map_add_def split: option.splits)
qed

lemma map_of_rev_distinct:
  "distinct (map fst entries) \<Longrightarrow> map_of (rev entries) k = map_of entries k"
proof (induction entries)
  case Nil
  show ?case by simp
next
  case (Cons e rest)
  obtain key v where e: "e = (key, v)" by (cases e)
  from Cons.prems have key: "key \<notin> fst ` set rest" and d: "distinct (map fst rest)"
    by (simp_all add: e)
  from key have "map_of rest key = None"
    by (simp add: map_of_eq_None_iff)
  with Cons.IH [OF d] show ?case
    by (simp add: e map_add_def split: option.splits)
qed

text \<open>
  C1. Whatever the table, the provider, the model and the two token counts:
  \<open>totalCost\<close> of \<open>computeCost\<close> is null exactly when \<open>inputCost\<close> or
  \<open>outputCost\<close> is null; in particular it is null when the model is not in the
  table and when either token count is null.
\<close>

theorem computeCost_total_null_iff:
  fixes this :: "('n::{times,plus}) PricingModel"
  shows "(totalCost (computeCost this prov mdl itok otok) = None \<longleftrightarrow>
            inputCost (computeCost this prov mdl itok otok) = None \<or>
            outputCost (computeCost this prov mdl itok otok) = None) \<and>
         (get this prov mdl = None \<longrightarrow>
            totalCost (computeCost this prov mdl itok otok) = None) \<and>
         (itok = None \<or> otok = None \<longrightarrow>
            totalCost (computeCost this prov mdl itok otok) = None)"
  by (auto simp: computeCost_def Let_def)

theorem computeCost_total_null_iff_witness:
  "get (new_PricingModel None :: rat PricingModel) ''openai'' ''unknown-model'' = None \<and>
   totalCost (computeCost (new_PricingModel None :: rat PricingModel)
                ''openai'' ''unknown-model'' (Some 1000) (Some 500)) = None \<and>
   totalCost (computeCost (new_PricingModel None :: rat PricingModel)
                ''openai'' ''gpt-4o'' None (Some 500)) = None \<and>
   outputCost (computeCost (new_PricingModel None :: rat PricingModel)
                ''openai'' ''gpt-4o'' None (Some 500)) = Some (1 / 200)"
  using computeCost_total_null_iff
          [of "new_PricingModel None :: rat PricingModel" "''openai''" "''unknown-model''"
              "Some 1000" "Some 500"]
        computeCost_total_null_iff
          [of "new_PricingModel None :: rat PricingModel" "''openai''" "''gpt-4o''"
              "None" "Some 500"]
  by (simp add: get_def new_PricingModel_def DEFAULT_PRICING_def computeCost_def)

lemma computeCost_known:
  fixes this :: "('n::{times,plus}) PricingModel"
  assumes "get this prov mdl = Some p"
  shows "computeCost this prov mdl (Some itok) (Some otok) =
           \<lparr>inputCost = Some (inputCostPerToken p * itok),
            outputCost = Some (outputCostPerToken p * otok),
            totalCost = Some (inputCostPerToken p * itok + outputCostPerToken p * otok)\<rparr>"
  using assms by (simp add: computeCost_def)

text \<open>
  C3. When the model is in the pricing table and both token counts are given,
  \<open>computeCost\<close> returns both components (each the per-token price times the
  token count) and a total that is their sum as the code's own \<open>+\<close> computes it,
  hence within \<open>1e-9\<close> of it. The sum is structural (\<open>computeCost_known\<close> holds
  for every reading of \<open>*\<close> and \<open>+\<close>); the tolerance is stated over an ordered
  field, where rounding, NaN and the infinities of IEEE doubles do not exist.
\<close>

theorem computeCost_total_is_sum:
  fixes this :: "('n::linordered_field) PricingModel"
  assumes "get this prov mdl = Some p"
  shows "\<exists>ic oc tc.
           inputCost (computeCost this prov mdl (Some itok) (Some otok)) = Some ic \<and>
           outputCost (computeCost this prov mdl (Some itok) (Some otok)) = Some oc \<and>
           totalCost (computeCost this prov mdl (Some itok) (Some otok)) = Some tc \<and>
           ic = inputCostPerToken p * itok \<and>
           oc = outputCostPerToken p * otok \<and>
           tc = ic + oc \<and>
           \<bar>tc - (ic + oc)\<bar> \<le> 1 / 10 ^ 9"
  by (simp add: computeCost_known [OF assms])

theorem computeCost_total_is_sum_witness:
  "get (new_PricingModel None :: rat PricingModel) ''openai'' ''gpt-4o'' =
     Some \<lparr>inputCostPerToken = 25 / 10000000, outputCostPerToken = 1 / 100000\<rparr> \<and>
   inputCost (computeCost (new_PricingModel None :: rat PricingModel)
                ''openai'' ''gpt-4o'' (Some 1000) (Some 500)) = Some (1 / 400) \<and>
   outputCost (computeCost (new_PricingModel None :: rat PricingModel)
                ''openai'' ''gpt-4o'' (Some 1000) (Some 500)) = Some (1 / 200) \<and>
   totalCost (computeCost (new_PricingModel None :: rat PricingModel)
                ''openai'' ''gpt-4o'' (Some 1000) (Some 500)) = Some (3 / 400)"
proof -
  have g: "get (new_PricingModel None :: rat PricingModel) ''openai'' ''gpt-4o'' =
             Some \<lparr>inputCostPerToken = 25 / 10000000, outputCostPerToken = 1 / 100000\<rparr>"
    by (simp add: get_def new_PricingModel_def DEFAULT_PRICING_def)
  from computeCost_total_is_sum [OF g, of 1000 500] g show ?thesis
    by auto
qed

text \<open>
  C9. Constructor, \<open>get\<close> and \<open>update\<close>. For an overrides record \<open>ovr\<close> (distinct
  keys, as every JavaScript object has): \<open>get\<close> answers with the entry of \<open>ovr\<close>
  for the key \<open>provider/model\<close> when \<open>ovr\<close> has one, else with the bundled
  default for that key, else with null; without overrides it answers with the
  bundled default or null. After \<open>update\<close> at the key \<open>provider/model\<close>, \<open>get\<close>
  returns the two prices just written, whatever the table held before.
\<close>

theorem get_overrides_defaults_update:
  fixes ovr :: "('n::field) pricing_record" and this :: "'n PricingModel"
  assumes "distinct (map fst ovr)"
  shows "get (new_PricingModel (Some ovr)) prov mdl =
           (case map_of ovr (prov @ ''/'' @ mdl) of
              Some e \<Rightarrow> Some e
            | None \<Rightarrow> map_of DEFAULT_PRICING (prov @ ''/'' @ mdl)) \<and>
         get (new_PricingModel None :: 'n PricingModel) prov mdl =
           map_of DEFAULT_PRICING (prov @ ''/'' @ mdl) \<and>
         get (update this (prov @ ''/'' @ mdl) i_cost o_cost) prov mdl =
           Some \<lparr>inputCostPerToken = i_cost, outputCostPerToken = o_cost\<rparr>"
proof -
  have dd: "distinct (map fst (DEFAULT_PRICING :: 'n pricing_record))"
    by (simp add: DEFAULT_PRICING_def)
  have defaults: "table (set_entries \<lparr>table = Map.empty\<rparr> (DEFAULT_PRICING :: 'n pricing_record)) k =
                    map_of DEFAULT_PRICING k" for k
    by (simp add: table_set_entries map_of_rev_distinct [OF dd] split: option.splits)
  have overrides: "table (set_entries base ovr) k =
                     (case map_of ovr k of Some v \<Rightarrow> Some v | None \<Rightarrow> table base k)" for base k
    by (simp add: table_set_entries map_of_rev_distinct [OF assms])
  have with_overrides: "get (new_PricingModel (Some ovr)) prov mdl =
           (case map_of ovr (prov @ ''/'' @ mdl) of
              Some e \<Rightarrow> Some e
            | None \<Rightarrow> map_of DEFAULT_PRICING (prov @ ''/'' @ mdl))"
    by (simp add: get_def new_PricingModel_def Let_def overrides defaults split: option.splits)
  have without: "get (new_PricingModel None :: 'n PricingModel) prov mdl =
           map_of DEFAULT_PRICING (prov @ ''/'' @ mdl)"
    by (simp add: get_def new_PricingModel_def Let_def defaults)
  have updated: "get (update this (prov @ ''/'' @ mdl) i_cost o_cost) prov mdl =
           Some \<lparr>inputCostPerToken = i_cost, outputCostPerToken = o_cost\<rparr>"
    by (simp add: get_def update_def)
  from with_overrides without updated show ?thesis by blast
qed

theorem get_overrides_defaults_update_witness:
  "distinct (map fst [(''openai/gpt-4o'',
       \<lparr>inputCostPerToken = 99 / 10000000 :: rat, outputCostPerToken = 199 / 10000000\<rparr>)]) \<and>
   get (new_PricingModel (Some [(''openai/gpt-4o'',
       \<lparr>inputCostPerToken = 99 / 10000000 :: rat, outputCostPerToken = 199 / 10000000\<rparr>)]))
     ''openai'' ''gpt-4o'' =
     Some \<lparr>inputCostPerToken = 99 / 10000000, outputCostPerToken = 199 / 10000000\<rparr> \<and>
   get (new_PricingModel (Some [(''openai/gpt-4o'',
       \<lparr>inputCostPerToken = 99 / 10000000 :: rat, outputCostPerToken = 199 / 10000000\<rparr>)]))
     ''openai'' ''gpt-4o-mini'' =
     Some \<lparr>inputCostPerToken = 15 / 100000000, outputCostPerToken = 6 / 10000000\<rparr> \<and>
   get (new_PricingModel (Some [(''openai/gpt-4o'',
       \<lparr>inputCostPerToken = 99 / 10000000 :: rat, outputCostPerToken = 199 / 10000000\<rparr>)]))
     ''custom'' ''model-1'' = None"
proof -
  let ?ovr = "[(''openai/gpt-4o'',
       \<lparr>inputCostPerToken = 99 / 10000000 :: rat, outputCostPerToken = 199 / 10000000\<rparr>)]"
  have d: "distinct (map fst ?ovr)" by simp
  show ?thesis
    using d get_overrides_defaults_update [OF d, of "''openai''" "''gpt-4o''"]
      get_overrides_defaults_update [OF d, of "''openai''" "''gpt-4o-mini''"]
      get_overrides_defaults_update [OF d, of "''custom''" "''model-1''"]
    by (simp add: DEFAULT_PRICING_def)
qed

section \<open>Properties of the provider wrappers\<close>

text \<open>
  Under the SDK's tracer no statement of a wrapper's \<open>try\<close> block throws, and the
  block leaves the span with the attributes below; the lookups of the three cost
  keys follow from the keys being different strings.
\<close>

lemma hikari_cost_keys_neq:
  "COST_INPUT \<noteq> PIPELINE_ID" "COST_INPUT \<noteq> STAGE" "COST_INPUT \<noteq> MODEL" "COST_INPUT \<noteq> PROVIDER"
  "COST_INPUT \<noteq> TOKENS_INPUT" "COST_INPUT \<noteq> TOKENS_OUTPUT"
  "COST_OUTPUT \<noteq> PIPELINE_ID" "COST_OUTPUT \<noteq> STAGE" "COST_OUTPUT \<noteq> MODEL" "COST_OUTPUT \<noteq> PROVIDER"
  "COST_OUTPUT \<noteq> TOKENS_INPUT" "COST_OUTPUT \<noteq> TOKENS_OUTPUT"
  "COST_TOTAL \<noteq> PIPELINE_ID" "COST_TOTAL \<noteq> STAGE" "COST_TOTAL \<noteq> MODEL" "COST_TOTAL \<noteq> PROVIDER"
  "COST_TOTAL \<noteq> TOKENS_INPUT" "COST_TOTAL \<noteq> TOKENS_OUTPUT"
  "COST_INPUT \<noteq> COST_OUTPUT" "COST_INPUT \<noteq> COST_TOTAL" "COST_OUTPUT \<noteq> COST_TOTAL"
  by (simp_all add: PIPELINE_ID_def STAGE_def MODEL_def PROVIDER_def TOKENS_INPUT_def
        TOKENS_OUTPUT_def COST_INPUT_def COST_OUTPUT_def COST_TOTAL_def)

lemma cost_stmts_sdk:
  "run_stmts
     [when_stmt c1 (sdk_setAttribute COST_INPUT v1),
      when_stmt c2 (sdk_setAttribute COST_OUTPUT v2),
      when_stmt c3 (sdk_setAttribute COST_TOTAL v3)] sp =
   (None, sp\<lparr>attributes :=
      (if c3 then AList.update COST_TOTAL v3 else id)
        ((if c2 then AList.update COST_OUTPUT v2 else id)
          ((if c1 then AList.update COST_INPUT v1 else id) (attributes sp)))\<rparr>)"
  by (simp add: when_stmt_def sdk_setAttribute_def)

lemma attr_stmts_sdk:
  "run_stmts
     [when_stmt c0 (sdk_setAttribute k0 v0),
      sdk_setAttribute k1 v1,
      sdk_setAttribute k2 v2,
      sdk_setAttribute k3 v3,
      when_stmt c4 (sdk_setAttribute k4 v4),
      when_stmt c5 (sdk_setAttribute k5 v5)] sp =
   (None, sp\<lparr>attributes :=
      (if c5 then AList.update k5 v5 else id)
        ((if c4 then AList.update k4 v4 else id)
          (AList.update k3 v3 (AList.update k2 v2 (AList.update k1 v1
            ((if c0 then AList.update k0 v0 else id) (attributes sp))))))\<rparr>)"
  by (simp add: when_stmt_def sdk_setAttribute_def)

lemma sdk_tracer_setAttribute: "setAttribute (sdk_tracer ctx now) = sdk_setAttribute"
  by (simp add: sdk_tracer_def)

lemma map_of_cond_update:
  "map_of ((if c then AList.update k v else id) al) k' =
     (if c \<and> k = k' then Some v else map_of al k')"
  by (simp add: update_conv')

lemma map_of_update_other:
  "k \<noteq> k' \<Longrightarrow> map_of (AList.update k v al) k' = map_of al k'"
  by (simp add: update_conv')

lemma hikari_attrs_cost_lookup:
  fixes al :: "(string \<times> 'n AttributeValue) list"
  defines "res c8 v8 c7 v7 c6 v6 c5 v5 c4 v4 v3 v2 v1 c0 v0 \<equiv>
      (if c8 then AList.update COST_TOTAL v8 else id)
      ((if c7 then AList.update COST_OUTPUT v7 else id)
      ((if c6 then AList.update COST_INPUT v6 else id)
      ((if c5 then AList.update TOKENS_OUTPUT v5 else id)
      ((if c4 then AList.update TOKENS_INPUT v4 else id)
      (AList.update PROVIDER v3
      (AList.update MODEL v2
      (AList.update STAGE v1
      ((if c0 then AList.update PIPELINE_ID v0 else id) al))))))))"
  shows "map_of (res c8 v8 c7 v7 c6 v6 c5 v5 c4 v4 v3 v2 v1 c0 v0) COST_INPUT =
           (if c6 then Some v6 else map_of al COST_INPUT)"
    and "map_of (res c8 v8 c7 v7 c6 v6 c5 v5 c4 v4 v3 v2 v1 c0 v0) COST_OUTPUT =
           (if c7 then Some v7 else map_of al COST_OUTPUT)"
    and "map_of (res c8 v8 c7 v7 c6 v6 c5 v5 c4 v4 v3 v2 v1 c0 v0) COST_TOTAL =
           (if c8 then Some v8 else map_of al COST_TOTAL)"
  unfolding res_def
  by (simp_all add: map_of_cond_update map_of_update_other
        hikari_cost_keys_neq hikari_cost_keys_neq [symmetric])

lemma openai_try_block_sdk:
  "openai_try_block (PricingModel_obj pm) (sdk_tracer ctx now) store stageName args (Some r) sp =
   (let tokens = openai_extractTokens r;
        modelName = openai_extractModel r (first_kwargs args);
        pipeline = getPipelineId store;
        cost = computeCost pm openai_PROVIDER_NAME modelName (fst tokens) (snd tokens)
    in (None, sp\<lparr>attributes :=
      (if totalCost cost \<noteq> None then AList.update COST_TOTAL (NumberValue (the (totalCost cost))) else id)
      ((if outputCost cost \<noteq> None then AList.update COST_OUTPUT (NumberValue (the (outputCost cost))) else id)
      ((if inputCost cost \<noteq> None then AList.update COST_INPUT (NumberValue (the (inputCost cost))) else id)
      ((if snd tokens \<noteq> None then AList.update TOKENS_OUTPUT (NumberValue (the (snd tokens))) else id)
      ((if fst tokens \<noteq> None then AList.update TOKENS_INPUT (NumberValue (the (fst tokens))) else id)
      (AList.update PROVIDER (StringValue openai_PROVIDER_NAME)
      (AList.update MODEL (StringValue modelName)
      (AList.update STAGE (StringValue stageName)
      ((if truthy pipeline then AList.update PIPELINE_ID (StringValue (the pipeline)) else id)
         (attributes sp)))))))))\<rparr>))"
  by (simp add: openai_try_block_def sdk_tracer_setAttribute PricingModel_obj_def Let_def
        case_prod_beta attr_stmts_sdk cost_stmts_sdk del: run_stmts.simps)

lemma anthropic_try_block_sdk:
  "anthropic_try_block (PricingModel_obj pm) (sdk_tracer ctx now) store stageName args (Some r) sp =
   (let tokens = anthropic_extractTokens r;
        modelName = anthropic_extractModel r (first_kwargs args);
        pipeline = getPipelineId store;
        cost = computeCost pm anthropic_PROVIDER_NAME modelName (fst tokens) (snd tokens)
    in (None, sp\<lparr>attributes :=
      (if totalCost cost \<noteq> None then AList.update COST_TOTAL (NumberValue (the (totalCost cost))) else id)
      ((if outputCost cost \<noteq> None then AList.update COST_OUTPUT (NumberValue (the (outputCost cost))) else id)
      ((if inputCost cost \<noteq> None then AList.update COST_INPUT (NumberValue (the (inputCost cost))) else id)
      ((if snd tokens \<noteq> None then AList.update TOKENS_OUTPUT (NumberValue (the (snd tokens))) else id)
      ((if fst tokens \<noteq> None then AList.update TOKENS_INPUT (NumberValue (the (fst tokens))) else id)
      (AList.update PROVIDER (StringValue anthropic_PROVIDER_NAME)
      (AList.update MODEL (StringValue modelName)
      (AList.update STAGE (StringValue stageName)
      ((if truthy pipeline then AList.update PIPELINE_ID (StringValue (the pipeline)) else id)
         (attributes sp)))))))))\<rparr>))"
  by (simp add: anthropic_try_block_def sdk_tracer_setAttribute PricingModel_obj_def Let_def
        case_prod_beta attr_stmts_sdk cost_stmts_sdk del: run_stmts.simps)

lemma google_try_block_sdk:
  "google_try_block (PricingModel_obj pm) (sdk_tracer ctx now) store stageName modelName (Some r) sp =
   (let tokens = google_extractTokens r;
        pipeline = getPipelineId store;
        cost = computeCost pm google_PROVIDER_NAME modelName (fst tokens) (snd tokens)
    in (None, sp\<lparr>attributes :=
      (if totalCost cost \<noteq> None then AList.update COST_TOTAL (NumberValue (the (totalCost cost))) else id)
      ((if outputCost cost \<noteq> None then AList.update COST_OUTPUT (NumberValue (the (outputCost cost))) else id)
      ((if inputCost cost \<noteq> None then AList.update COST_INPUT (NumberValue (the (inputCost cost))) else id)
      ((if snd tokens \<noteq> None then AList.update TOKENS_OUTPUT (NumberValue (the (snd tokens))) else id)
      ((if fst tokens \<noteq> None then AList.update TOKENS_INPUT (NumberValue (the (fst tokens))) else id)
      (AList.update PROVIDER (StringValue google_PROVIDER_NAME)
      (AList.update MODEL (StringValue modelName)
      (AList.update STAGE (StringValue stageName)
      ((if truthy pipeline then AList.update PIPELINE_ID (StringValue (the pipeline)) else id)
         (attributes sp)))))))))\<rparr>))"
  by (simp add: google_try_block_def sdk_tracer_setAttribute PricingModel_obj_def Let_def
        case_prod_beta attr_stmts_sdk cost_stmts_sdk del: run_stmts.simps)

lemma openai_cost_attributes:
  "(let sp = snd (openai_makeWrapper original_o (PricingModel_obj pm) (sdk_tracer ctx now) store args)
    in case original_o args of
         Resolved (Some r) \<Rightarrow>
           (let cost = computeCost pm openai_PROVIDER_NAME
                         (openai_extractModel r (first_kwargs args))
                         (fst (openai_extractTokens r)) (snd (openai_extractTokens r))
            in map_of (attributes sp) COST_INPUT = map_option NumberValue (inputCost cost) \<and>
               map_of (attributes sp) COST_OUTPUT = map_option NumberValue (outputCost cost) \<and>
               map_of (attributes sp) COST_TOTAL = map_option NumberValue (totalCost cost))
       | _ \<Rightarrow> attributes sp = [])"
proof (cases "original_o args")
  case (Resolved response)
  show ?thesis
  proof (cases response)
    case None
    with Resolved show ?thesis
      by (simp add: openai_makeWrapper_def openai_try_block_def span_end_def sdk_tracer_def)
  next
    case (Some r)
    have "attributes (startSpan (sdk_tracer ctx now :: 'a Tracer) nm) = []" for nm
      by (simp add: sdk_tracer_def)
    with Resolved Some show ?thesis
      by (auto simp add: openai_makeWrapper_def openai_try_block_sdk span_end_def Let_def
            hikari_attrs_cost_lookup)
  qed
next
  case (Rejected err)
  then show ?thesis
    by (simp add: openai_makeWrapper_def span_end_def sdk_tracer_def)
next
  case Pending
  then show ?thesis
    by (simp add: openai_makeWrapper_def sdk_tracer_def)
qed

lemma anthropic_cost_attributes:
  "(let sp = snd (anthropic_makeWrapper original_a (PricingModel_obj pm) (sdk_tracer ctx now) store args)
    in case original_a args of
         Resolved (Some r) \<Rightarrow>
           (let cost = computeCost pm anthropic_PROVIDER_NAME
                         (anthropic_extractModel r (first_kwargs args))
                         (fst (anthropic_extractTokens r)) (snd (anthropic_extractTokens r))
            in map_of (attributes sp) COST_INPUT = map_option NumberValue (inputCost cost) \<and>
               map_of (attributes sp) COST_OUTPUT = map_option NumberValue (outputCost cost) \<and>
               map_of (attributes sp) COST_TOTAL = map_option NumberValue (totalCost cost))
       | _ \<Rightarrow> attributes sp = [])"
proof (cases "original_a args")
  case (Resolved response)
  show ?thesis
  proof (cases response)
    case None
    with Resolved show ?thesis
      by (simp add: anthropic_makeWrapper_def anthropic_try_block_def span_end_def sdk_tracer_def)
  next
    case (Some r)
    have "attributes (startSpan (sdk_tracer ctx now :: 'a Tracer) nm) = []" for nm
      by (simp add: sdk_tracer_def)
    with Resolved Some show ?thesis
      by (auto simp add: anthropic_makeWrapper_def anthropic_try_block_sdk span_end_def Let_def
            hikari_attrs_cost_lookup)
  qed
next
  case (Rejected err)
  then show ?thesis
    by (simp add: anthropic_makeWrapper_def span_end_def sdk_tracer_def)
next
  case Pending
  then show ?thesis
    by (simp add: anthropic_makeWrapper_def sdk_tracer_def)
qed

lemma google_cost_attributes:
  "(let sp = snd (google_makeWrapper original_g modelName (PricingModel_obj pm) (sdk_tracer ctx now) store args)
    in case original_g args of
         Resolved (Some r) \<Rightarrow>
           (let cost = computeCost pm google_PROVIDER_NAME
                         modelName
                         (fst (google_extractTokens r)) (snd (google_extractTokens r))
            in map_of (attributes sp) COST_INPUT = map_option NumberValue (inputCost cost) \<and>
               map_of (attributes sp) COST_OUTPUT = map_option NumberValue (outputCost cost) \<and>
               map_of (attributes sp) COST_TOTAL = map_option NumberValue (totalCost cost))
       | _ \<Rightarrow> attributes sp = [])"
proof (cases "original_g args")
  case (Resolved response)
  show ?thesis
  proof (cases response)
    case None
    with Resolved show ?thesis
      by (simp add: google_makeWrapper_def google_try_block_def span_end_def sdk_tracer_def)
  next
    case (Some r)
    have "attributes (startSpan (sdk_tracer ctx now :: 'a Tracer) nm) = []" for nm
      by (simp add: sdk_tracer_def)
    with Resolved Some show ?thesis
      by (auto simp add: google_makeWrapper_def google_try_block_sdk span_end_def Let_def
            hikari_attrs_cost_lookup)
  qed
next
  case (Rejected err)
  then show ?thesis
    by (simp add: google_makeWrapper_def span_end_def sdk_tracer_def)
next
  case Pending
  then show ?thesis
    by (simp add: google_makeWrapper_def sdk_tracer_def)
qed

text \<open>
  C2. For each of the three providers, whatever the pricing object, the tracer (so
  whatever \<open>setAttribute\<close> does, throwing included), the context and the
  arguments: the outcome of the wrapped call is the outcome of the original call on
  the same arguments. It resolves with the very response the original resolved with
  (a null response, on which token extraction throws, included), rejects with the
  error the original rejected with, and settles only if the original does.
\<close>

theorem makeWrapper_outcome_is_original:
  "fst (openai_makeWrapper original_o pricing tracer store args) = original_o args \<and>
   fst (anthropic_makeWrapper original_a pricing tracer store args) = original_a args \<and>
   fst (google_makeWrapper original_g modelName pricing tracer store gargs) = original_g gargs"
  by (simp add: openai_makeWrapper_def anthropic_makeWrapper_def google_makeWrapper_def
        Let_def split: outcome.splits prod.splits)

text \<open>
  C10. When the provider method rejects, each wrapper rejects with the same error and
  leaves the span ended and otherwise as the tracer created it: no \<open>setAttribute\<close>
  call was made. With the SDK's tracer, whose new spans carry no attributes, the ended
  span has none, so \<open>hikari.stage\<close>, \<open>hikari.model\<close> and \<open>hikari.provider\<close>,
  which the collector requires, are absent.
\<close>

theorem rejected_call_ends_span_without_attributes:
  "(original_o args = Rejected err \<longrightarrow>
      openai_makeWrapper original_o pricing tracer store args =
        (Rejected err, (startSpan tracer ''openai.chat.completions.create'')\<lparr>ended := True\<rparr>) \<and>
      attributes (snd (openai_makeWrapper original_o pricing (sdk_tracer ctx now) store args)) = []) \<and>
   (original_a args = Rejected err \<longrightarrow>
      anthropic_makeWrapper original_a pricing tracer store args =
        (Rejected err, (startSpan tracer ''anthropic.messages.create'')\<lparr>ended := True\<rparr>) \<and>
      attributes (snd (anthropic_makeWrapper original_a pricing (sdk_tracer ctx now) store args)) = []) \<and>
   (original_g gargs = Rejected err \<longrightarrow>
      google_makeWrapper original_g modelName pricing tracer store gargs =
        (Rejected err, (startSpan tracer ''google.generativeai.generate_content'')\<lparr>ended := True\<rparr>) \<and>
      attributes (snd (google_makeWrapper original_g modelName pricing (sdk_tracer ctx now) store gargs)) = [])"
  by (simp add: openai_makeWrapper_def anthropic_makeWrapper_def google_makeWrapper_def
        span_end_def sdk_tracer_def Let_def)

theorem rejected_call_ends_span_without_attributes_witness:
  "openai_makeWrapper (\<lambda>a. Rejected (Error ''API Error''))
      (PricingModel_obj (new_PricingModel None :: real PricingModel))
      (sdk_tracer \<lparr>traceId = ''t1'', spanId = ''s1''\<rparr> (0, 0)) None
      [[''model'' \<mapsto> ''gpt-4o'']] =
     (Rejected (Error ''API Error''),
      \<lparr>name = ''openai.chat.completions.create'',
       spanContext = \<lparr>traceId = ''t1'', spanId = ''s1''\<rparr>,
       startTime = (0, 0), endTime = (0, 0), attributes = [], ended = True\<rparr>) \<and>
   anthropic_makeWrapper (\<lambda>a. Rejected (Error ''API Error''))
      (PricingModel_obj (new_PricingModel None :: real PricingModel))
      (sdk_tracer \<lparr>traceId = ''t1'', spanId = ''s1''\<rparr> (0, 0)) None
      [[''model'' \<mapsto> ''gpt-4o'']] =
     (Rejected (Error ''API Error''),
      \<lparr>name = ''anthropic.messages.create'',
       spanContext = \<lparr>traceId = ''t1'', spanId = ''s1''\<rparr>,
       startTime = (0, 0), endTime = (0, 0), attributes = [], ended = True\<rparr>) \<and>
   google_makeWrapper (\<lambda>a. Rejected (Error ''API Error'')) ''gemini-1.5-flash''
      (PricingModel_obj (new_PricingModel None :: real PricingModel))
      (sdk_tracer \<lparr>traceId = ''t1'', spanId = ''s1''\<rparr> (0, 0)) None
      [''test prompt''] =
     (Rejected (Error ''API Error''),
      \<lparr>name = ''google.generativeai.generate_content'',
       spanContext = \<lparr>traceId = ''t1'', spanId = ''s1''\<rparr>,
       startTime = (0, 0), endTime = (0, 0), attributes = [], ended = True\<rparr>)"
  using rejected_call_ends_span_without_attributes
    [of "\<lambda>a. Rejected (Error ''API Error'')" "[[''model'' \<mapsto> ''gpt-4o'']]" "Error ''API Error''"
        "PricingModel_obj (new_PricingModel None :: real PricingModel)"
        "sdk_tracer \<lparr>traceId = ''t1'', spanId = ''s1''\<rparr> (0, 0)" None
        "\<lparr>traceId = ''t1'', spanId = ''s1''\<rparr>" "(0, 0)"
        "\<lambda>a. Rejected (Error ''API Error'')"
        "\<lambda>a. Rejected (Error ''API Error'')" "[''test prompt'']" "''gemini-1.5-flash''"]
  by (simp add: sdk_tracer_def)

text \<open>
  C4. With the SDK's tracer and the repository's \<open>PricingModel\<close>, for every call
  of each of the three wrappers: when the provider call resolved with a response,
  the span carries \<open>hikari.cost.input\<close>, \<open>hikari.cost.output\<close> and
  \<open>hikari.cost.total\<close> exactly where the corresponding cost of \<open>computeCost\<close>
  is non-null, and then with that cost as value; a null cost leaves the key absent,
  no number stands in for it. In every other case (rejection, a null response, a call
  that never settles) the span has no attribute at all.
\<close>

theorem cost_attribute_set_iff_cost_known:
  "(let sp = snd (openai_makeWrapper original_o (PricingModel_obj pm) (sdk_tracer ctx now) store args)
    in case original_o args of
         Resolved (Some r) \<Rightarrow>
           (let cost = computeCost pm openai_PROVIDER_NAME
                         (openai_extractModel r (first_kwargs args))
                         (fst (openai_extractTokens r)) (snd (openai_extractTokens r))
            in map_of (attributes sp) COST_INPUT = map_option NumberValue (inputCost cost) \<and>
               map_of (attributes sp) COST_OUTPUT = map_option NumberValue (outputCost cost) \<and>
               map_of (attributes sp) COST_TOTAL = map_option NumberValue (totalCost cost))
       | _ \<Rightarrow> attributes sp = []) \<and>
   (let sp = snd (anthropic_makeWrapper original_a (PricingModel_obj pm) (sdk_tracer ctx now) store args)
    in case original_a args of
         Resolved (Some r) \<Rightarrow>
           (let cost = computeCost pm anthropic_PROVIDER_NAME
                         (anthropic_extractModel r (first_kwargs args))
                         (fst (anthropic_extractTokens r)) (snd (anthropic_extractTokens r))
            in map_of (attributes sp) COST_INPUT = map_option NumberValue (inputCost cost) \<and>
               map_of (attributes sp) COST_OUTPUT = map_option NumberValue (outputCost cost) \<and>
               map_of (attributes sp) COST_TOTAL = map_option NumberValue (totalCost cost))
       | _ \<Rightarrow> attributes sp = []) \<and>
   (let sp = snd (google_makeWrapper original_g modelName (PricingModel_obj pm) (sdk_tracer ctx now) store gargs)
    in case original_g gargs of
         Resolved (Some r) \<Rightarrow>
           (let cost = computeCost pm google_PROVIDER_NAME
                         modelName
                         (fst (google_extractTokens r)) (snd (google_extractTokens r))
            in map_of (attributes sp) COST_INPUT = map_option NumberValue (inputCost cost) \<and>
               map_of (attributes sp) COST_OUTPUT = map_option NumberValue (outputCost cost) \<and>
               map_of (attributes sp) COST_TOTAL = map_option NumberValue (totalCost cost))
       | _ \<Rightarrow> attributes sp = [])"
  using openai_cost_attributes [of original_o pm ctx now store args]
        anthropic_cost_attributes [of original_a pm ctx now store args]
        google_cost_attributes [of original_g modelName pm ctx now store gargs]
  by blast

theorem cost_attribute_set_iff_cost_known_witness:
  "map_of (attributes (snd (openai_makeWrapper
      (\<lambda>a. Resolved (Some \<lparr>OpenAIResponse.usage =
                 Some \<lparr>prompt_tokens = Some 100, completion_tokens = Some 50\<rparr>,
               OpenAIResponse.model = Some ''gpt-4o''\<rparr>))
      (PricingModel_obj (new_PricingModel None :: real PricingModel))
      (sdk_tracer \<lparr>traceId = ''t1'', spanId = ''s1''\<rparr> (0, 0)) None
      [[''model'' \<mapsto> ''gpt-4o'']]))) COST_TOTAL = Some (NumberValue (3 / 4000)) \<and>
   map_of (attributes (snd (anthropic_makeWrapper
      (\<lambda>a. Resolved (Some \<lparr>AnthropicResponse.usage =
                 Some \<lparr>input_tokens = Some 100, output_tokens = None\<rparr>,
               AnthropicResponse.model = Some ''claude-3-haiku-20240307''\<rparr>))
      (PricingModel_obj (new_PricingModel None :: real PricingModel))
      (sdk_tracer \<lparr>traceId = ''t1'', spanId = ''s1''\<rparr> (0, 0)) None
      [[''model'' \<mapsto> ''gpt-4o'']]))) COST_INPUT = Some (NumberValue (1 / 40000)) \<and>
   map_of (attributes (snd (anthropic_makeWrapper
      (\<lambda>a. Resolved (Some \<lparr>AnthropicResponse.usage =
                 Some \<lparr>input_tokens = Some 100, output_tokens = None\<rparr>,
               AnthropicResponse.model = Some ''claude-3-haiku-20240307''\<rparr>))
      (PricingModel_obj (new_PricingModel None :: real PricingModel))
      (sdk_tracer \<lparr>traceId = ''t1'', spanId = ''s1''\<rparr> (0, 0)) None
      [[''model'' \<mapsto> ''gpt-4o'']]))) COST_TOTAL = None \<and>
   map_of (attributes (snd (google_makeWrapper
      (\<lambda>a. Resolved (Some \<lparr>usageMetadata =
                 Some \<lparr>promptTokenCount = Some 100, candidatesTokenCount = Some 50\<rparr>\<rparr>))
      ''gemini-unlisted''
      (PricingModel_obj (new_PricingModel None :: real PricingModel))
      (sdk_tracer \<lparr>traceId = ''t1'', spanId = ''s1''\<rparr> (0, 0)) None
      [''test prompt'']))) COST_INPUT = None"
proof -
  have c1: "computeCost (new_PricingModel None :: real PricingModel) ''openai'' ''gpt-4o''
              (Some 100) (Some 50) =
            \<lparr>inputCost = Some (1 / 4000), outputCost = Some (1 / 2000),
             totalCost = Some (3 / 4000)\<rparr>"
    using computeCost_known [of "new_PricingModel None :: real PricingModel" "''openai''"
            "''gpt-4o''" "\<lparr>inputCostPerToken = 25 / 10000000, outputCostPerToken = 1 / 100000\<rparr>"
            100 50]
    by (simp add: get_def new_PricingModel_def DEFAULT_PRICING_def)
  have c2: "computeCost (new_PricingModel None :: real PricingModel) ''anthropic''
              ''claude-3-haiku-20240307'' (Some 100) None =
            \<lparr>inputCost = Some (1 / 40000), outputCost = None, totalCost = None\<rparr>"
    by (simp add: computeCost_def Let_def get_def new_PricingModel_def DEFAULT_PRICING_def)
  have c3: "computeCost (new_PricingModel None :: real PricingModel) ''google''
              ''gemini-unlisted'' (Some 100) (Some 50) =
            \<lparr>inputCost = None, outputCost = None, totalCost = None\<rparr>"
    by (simp add: computeCost_def Let_def get_def new_PricingModel_def DEFAULT_PRICING_def)
  show ?thesis
    using cost_attribute_set_iff_cost_known
      [of "\<lambda>a. Resolved (Some \<lparr>OpenAIResponse.usage =
                 Some \<lparr>prompt_tokens = Some 100, completion_tokens = Some 50\<rparr>,
               OpenAIResponse.model = Some ''gpt-4o''\<rparr>)"
          "new_PricingModel None :: real PricingModel"
          "\<lparr>traceId = ''t1'', spanId = ''s1''\<rparr>" "(0, 0)" None
          "[[''model'' \<mapsto> ''gpt-4o'']]"
          "\<lambda>a. Resolved (Some \<lparr>AnthropicResponse.usage =
                 Some \<lparr>input_tokens = Some 100, output_tokens = None\<rparr>,
               AnthropicResponse.model = Some ''claude-3-haiku-20240307''\<rparr>)"
          "\<lambda>a. Resolved (Some \<lparr>usageMetadata =
                 Some \<lparr>promptTokenCount = Some 100, candidatesTokenCount = Some 50\<rparr>\<rparr>)"
          "''gemini-unlisted''" "[''test prompt'']"]
    by (simp add: Let_def openai_extractTokens_def openai_extractModel_def
          anthropic_extractTokens_def anthropic_extractModel_def google_extractTokens_def
          openai_PROVIDER_NAME_def anthropic_PROVIDER_NAME_def google_PROVIDER_NAME_def
          c1 c2 c3)
qed

section \<open>Properties of the span exporter\<close>

text \<open>
  Printing a natural number in decimal and reading it back: every character printed
  is a digit, and the digits read back as the number.
\<close>

lemma digit_char_props:
  assumes "d < 10"
  shows "is_digit (digit_char d)" "of_char (digit_char d) - 48 = d" "digit_char d \<noteq> CHR ''-''"
proof -
  from assms have "d \<in> {0, 1, 2, 3, 4, 5, 6, 7, 8, 9}" by auto
  then show "is_digit (digit_char d)" "of_char (digit_char d) - 48 = d"
    "digit_char d \<noteq> CHR ''-''"
    by (auto simp: digit_char_def is_digit_def)
qed

lemma digits10_digits: "list_all is_digit (digits10 n)"
proof (induction n rule: digits10.induct)
  case (1 n)
  show ?case
  proof (cases "n < 10")
    case True
    then show ?thesis by (simp add: digits10.simps [of n] digit_char_props)
  next
    case False
    with 1 show ?thesis by (simp add: digits10.simps [of n] digit_char_props)
  qed
qed

lemma digits10_nonempty: "digits10 n \<noteq> []"
  by (simp add: digits10.simps [of n])

lemma parse_nat_snoc: "parse_nat (s @ [c]) = 10 * parse_nat s + (of_char c - 48)"
  by (simp add: parse_nat_def)

lemma parse_nat_digits10: "parse_nat (digits10 n) = n"
proof (induction n rule: digits10.induct)
  case (1 n)
  show ?case
  proof (cases "n < 10")
    case True
    then show ?thesis by (simp add: digits10.simps [of n] parse_nat_def digit_char_props)
  next
    case False
    with 1 show ?thesis by (simp add: digits10.simps [of n] parse_nat_snoc digit_char_props)
  qed
qed

lemma digits10_no_minus: "hd (digits10 n) \<noteq> CHR ''-''"
proof -
  have "list_all (\<lambda>c. c \<noteq> CHR ''-'') (digits10 n)"
    using digits10_digits [of n] by (auto simp: list_all_iff is_digit_def)
  with digits10_nonempty [of n] show ?thesis by (cases "digits10 n") auto
qed

lemma safe_nat: "\<bar>x::int\<bar> \<le> 2 ^ 53 \<Longrightarrow> nat \<bar>x\<bar> \<le> 2 ^ 53"
  by (simp add: nat_le_iff)

lemma NumberToString_decimal:
  assumes "\<bar>x\<bar> \<le> 2 ^ 53"
  shows "is_decimal_string (NumberToString x)" "parse_int (NumberToString x) = x"
proof -
  define n where "n = nat \<bar>x\<bar>"
  from assms have safe: "n \<le> 2 ^ 53" unfolding n_def by (rule safe_nat)
  then have small: "n < 10 ^ 21" by simp
  obtain c cs where ds: "digits10 n = c # cs"
    using digits10_nonempty [of n] by (cases "digits10 n") auto
  have c: "c \<noteq> CHR ''-''" using digits10_no_minus [of n] ds by simp
  have all: "list_all is_digit (c # cs)" using digits10_digits [of n] ds by simp
  have p: "parse_nat (c # cs) = n" using parse_nat_digits10 [of n] ds by simp
  have body: "NumberToString x = (if x < 0 then CHR ''-'' # c # cs else c # cs)"
    using safe small ds by (simp add: NumberToString_def Let_def n_def [symmetric])
  show "is_decimal_string (NumberToString x)"
    using c all by (simp add: body is_decimal_string_def)
  have "int n = \<bar>x\<bar>" by (simp add: n_def)
  then show "parse_int (NumberToString x) = x"
    using c p by (simp add: body parse_int_def)
qed

lemma otlp_attribute_encodes:
  assumes "in_safe_range v" and "v \<noteq> ArrayValue"
  shows "\<exists>a. otlp_attribute (k, v) = [a] \<and> key a = k \<and> encodes v (value a) \<and>
             consumer_decode (value a) = Some v"
proof (cases v)
  case (NumberValue x)
  show ?thesis
  proof (cases "isInteger x")
    case True
    then have x: "of_int \<lfloor>x\<rfloor> = x" by (simp add: isInteger_def)
    from assms(1) NumberValue True have "\<bar>x\<bar> \<le> 2 ^ 53"
      by (simp add: in_safe_range_def)
    then have "\<bar>real_of_int \<lfloor>x\<rfloor>\<bar> \<le> 2 ^ 53" unfolding x .
    then have "real_of_int \<bar>\<lfloor>x\<rfloor>\<bar> \<le> real_of_int (2 ^ 53)" by simp
    then have r: "\<bar>\<lfloor>x\<rfloor>\<bar> \<le> 2 ^ 53" by (simp only: of_int_le_iff)
    from NumberToString_decimal [OF r] x True NumberValue show ?thesis
      by (simp add: encodes_def consumer_decode_def)
  next
    case False
    with NumberValue show ?thesis
      by (simp add: encodes_def consumer_decode_def)
  qed
next
  case (StringValue s)
  then show ?thesis by (simp add: encodes_def consumer_decode_def)
next
  case (BooleanValue b)
  then show ?thesis by (simp add: encodes_def consumer_decode_def)
next
  case ArrayValue
  with assms(2) show ?thesis by simp
qed

lemma otlp_attributes_encode:
  assumes "\<forall>(k, v) \<in> set al. in_safe_range v"
  shows "list_all2 (\<lambda>(k, v) a. key a = k \<and> encodes v (value a) \<and>
                      consumer_decode (value a) = Some v)
           (filter (\<lambda>(k, v). v \<noteq> ArrayValue) al)
           (concat (map otlp_attribute al))"
  using assms
proof (induction al)
  case Nil
  show ?case by simp
next
  case (Cons e al)
  obtain k v where e: "e = (k, v)" by (cases e)
  from Cons.prems have rest: "\<forall>(k, v) \<in> set al. in_safe_range v"
    and here: "in_safe_range v"
    by (simp_all add: e)
  show ?case
  proof (cases "v = ArrayValue")
    case True
    with Cons.IH [OF rest] show ?thesis by (simp add: e)
  next
    case False
    from otlp_attribute_encodes [OF here False, of k] obtain a where
      "otlp_attribute (k, v) = [a]" "key a = k" "encodes v (value a)"
      "consumer_decode (value a) = Some v"
      by blast
    with Cons.IH [OF rest] False show ?thesis by (simp add: e)
  qed
qed

text \<open>
  What \<open>String\<close> prints beyond \<open>2^53\<close>, at four values: the shortest digits that
  read back as the double, written in full below \<open>10^21\<close> and in exponent notation
  from there on. The last value is a time stamp of \<open>spanToOtlp\<close>, for a span started
  at \<open>[1700000000, 123456789]\<close>: the nanoseconds are rounded twice.
\<close>

lemma NumberToString_beyond_safe:
  "NumberToString 9223372036854775808 = ''9223372036854776000''"
  "NumberToString 1180591620717411303424 = ''1.1805916207174113e+21''"
  "NumberToString 1000000000000000000000 = ''1e+21''"
  "NumberToString (to_double (to_double (1700000000 * 1000000000) + 123456789)) =
     ''1700000000123456800''"
  by (simp_all add: NumberToString_def to_double_def shortest_decimal_def
        shortest_from.simps shortest_with_def around_def nearer_def round_to_double_def
        round_at_def bit_length.simps exponent_form_def digits10.simps digit_char_def Let_def)

text \<open>
  C8 as stated fails for integer attributes beyond \<open>2^53\<close>. The value \<open>10^21\<close> is
  sent as \<open>intValue\<close> with a string that is no decimal string, and a consumer of
  decimal strings reads nothing from it. The value \<open>2^63\<close> is sent as a decimal
  string, but one that names another integer. An attribute holding an array is
  sent under no key at all.
\<close>

theorem spanToOtlp_large_integer_counterexample:
  "OtlpSpan.attributes (spanToOtlp
     ((startSpan (sdk_tracer \<lparr>SpanContext.traceId = ''t1'', SpanContext.spanId = ''s1''\<rparr> (0, 0))
        ''openai.chat'')
      \<lparr>Span.attributes :=
         [(''hikari.tokens.input'', NumberValue (10 ^ 21)),
          (''hikari.tokens.output'', NumberValue (2 ^ 63)),
          (''tags'', ArrayValue)]\<rparr>)) =
     [\<lparr>key = ''hikari.tokens.input'', value = intValue ''1e+21''\<rparr>,
      \<lparr>key = ''hikari.tokens.output'', value = intValue ''9223372036854776000''\<rparr>] \<and>
   isInteger (10 ^ 21) \<and> isInteger (2 ^ 63) \<and>
   \<not> is_decimal_string ''1e+21'' \<and>
   \<not> encodes (NumberValue (10 ^ 21)) (intValue ''1e+21'') \<and>
   consumer_decode (intValue ''1e+21'') = None \<and>
   is_decimal_string ''9223372036854776000'' \<and>
   parse_int ''9223372036854776000'' = 9223372036854776000 \<and>
   \<not> encodes (NumberValue (2 ^ 63)) (intValue ''9223372036854776000'') \<and>
   consumer_decode (intValue ''9223372036854776000'') \<noteq> Some (NumberValue (2 ^ 63))"
  by (simp add: spanToOtlp_def Let_def isInteger_def NumberToString_beyond_safe
        is_decimal_string_def is_digit_def encodes_def consumer_decode_def parse_int_def parse_nat_def)

text \<open>
  C8, as amended. For a span none of whose attributes is an integer of magnitude
  above \<open>2^53\<close>, the OTLP attributes of \<open>spanToOtlp\<close> are those of the span that
  hold a number, a string or a boolean, in the span's order and under the same
  keys: an integer-valued number as \<open>intValue\<close> with a decimal string that reads
  back as the number, any other number as \<open>doubleValue\<close> with the number itself, a
  string as \<open>stringValue\<close>, a boolean as \<open>boolValue\<close>; and the consumer recovers
  each of these values exactly. Attributes of any other type are left out.
\<close>

theorem spanToOtlp_encodes_attributes:
  assumes "\<forall>(k, v) \<in> set (Span.attributes sp). in_safe_range v"
  shows "list_all2 (\<lambda>(k, v) a. key a = k \<and> encodes v (value a) \<and>
                      consumer_decode (value a) = Some v)
           (filter (\<lambda>(k, v). v \<noteq> ArrayValue) (Span.attributes sp))
           (OtlpSpan.attributes (spanToOtlp sp))"
  using otlp_attributes_encode [OF assms] by (simp add: spanToOtlp_def Let_def)

theorem spanToOtlp_encodes_attributes_witness:
  "OtlpSpan.attributes (spanToOtlp
     ((startSpan (sdk_tracer \<lparr>SpanContext.traceId = ''t1'', SpanContext.spanId = ''s1''\<rparr> (0, 0))
        ''openai.chat'')
      \<lparr>Span.attributes :=
         [(''hikari.stage'', StringValue ''extract''),
          (''hikari.tokens.input'', NumberValue 150),
          (''hikari.cost.input'', NumberValue 0),
          (''hikari.cost.total'', NumberValue (7 / 8000)),
          (''big'', NumberValue (2 ^ 53)),
          (''cached'', BooleanValue True),
          (''tags'', ArrayValue)]\<rparr>)) =
     [\<lparr>key = ''hikari.stage'', value = stringValue ''extract''\<rparr>,
      \<lparr>key = ''hikari.tokens.input'', value = intValue ''150''\<rparr>,
      \<lparr>key = ''hikari.cost.input'', value = intValue ''0''\<rparr>,
      \<lparr>key = ''hikari.cost.total'', value = doubleValue (7 / 8000)\<rparr>,
      \<lparr>key = ''big'', value = intValue ''9007199254740992''\<rparr>,
      \<lparr>key = ''cached'', value = boolValue True\<rparr>] \<and>
   consumer_decode (intValue ''150'') = Some (NumberValue 150) \<and>
   consumer_decode (intValue ''0'') = Some (NumberValue 0) \<and>
   consumer_decode (intValue ''9007199254740992'') = Some (NumberValue (2 ^ 53)) \<and>
   consumer_decode (doubleValue (7 / 8000)) = Some (NumberValue (7 / 8000))"
proof -
  let ?sp = "(startSpan (sdk_tracer \<lparr>SpanContext.traceId = ''t1'', SpanContext.spanId = ''s1''\<rparr> (0, 0))
        ''openai.chat'')
      \<lparr>Span.attributes :=
         [(''hikari.stage'', StringValue ''extract''),
          (''hikari.tokens.input'', NumberValue 150),
          (''hikari.cost.input'', NumberValue 0),
          (''hikari.cost.total'', NumberValue (7 / 8000)),
          (''big'', NumberValue (2 ^ 53)),
          (''cached'', BooleanValue True),
          (''tags'', ArrayValue)]\<rparr>"
  have range: "\<forall>(k, v) \<in> set (Span.attributes ?sp). in_safe_range v"
    by (simp add: in_safe_range_def)
  have out: "OtlpSpan.attributes (spanToOtlp ?sp) =
     [\<lparr>key = ''hikari.stage'', value = stringValue ''extract''\<rparr>,
      \<lparr>key = ''hikari.tokens.input'', value = intValue ''150''\<rparr>,
      \<lparr>key = ''hikari.cost.input'', value = intValue ''0''\<rparr>,
      \<lparr>key = ''hikari.cost.total'', value = doubleValue (7 / 8000)\<rparr>,
      \<lparr>key = ''big'', value = intValue ''9007199254740992''\<rparr>,
      \<lparr>key = ''cached'', value = boolValue True\<rparr>]"
    by (simp add: spanToOtlp_def Let_def isInteger_def NumberToString_def digits10.simps
          digit_char_def)
  from spanToOtlp_encodes_attributes [OF range]
  have "consumer_decode (intValue ''150'') = Some (NumberValue 150) \<and>
        consumer_decode (intValue ''0'') = Some (NumberValue 0) \<and>
        consumer_decode (intValue ''9007199254740992'') = Some (NumberValue (2 ^ 53)) \<and>
        consumer_decode (doubleValue (7 / 8000)) = Some (NumberValue (7 / 8000))"
    unfolding out by simp
  with out show ?thesis by blast
qed

text \<open>
  The loop of \<open>export\<close>, span by span and as a whole. It changes the queue only.
  One more span is appended at the tail, after the head is discarded when the queue
  has reached \<open>maxQueueSize\<close>. While there is room the spans are appended and
  nothing is dropped; with a whole capacity of at least one and a queue within it,
  the loop leaves the old queue followed by the incoming spans, less as many spans
  at the head as exceed the capacity. \<open>flushBatch\<close> takes the first \<open>batchSize\<close>
  spans off the queue and sends them converted in their order; \<open>export\<close> of a
  running exporter is the loop, followed by \<open>flushBatch\<close> when the queue has
  reached \<open>batchSize\<close>.
\<close>

lemma export_loop_append:
  "export_loop this (xs @ ys) = export_loop (export_loop this xs) ys"
  by (induction xs arbitrary: this) (simp_all add: Let_def)

lemma export_loop_only_queue:
  "export_loop this sps = this\<lparr>queue := queue (export_loop this sps)\<rparr>"
proof (induction sps arbitrary: this)
  case Nil
  show ?case by simp
next
  case (Cons sp rest)
  let ?this2 = "(if maxQueueSize this \<le> real (length (queue this))
                 then this\<lparr>queue := tl (queue this)\<rparr> else this)
                \<lparr>queue := queue (if maxQueueSize this \<le> real (length (queue this))
                 then this\<lparr>queue := tl (queue this)\<rparr> else this) @ [sp]\<rparr>"
  have step: "export_loop this (sp # rest) = export_loop ?this2 rest"
    by (simp add: Let_def)
  have "export_loop ?this2 rest = ?this2\<lparr>queue := queue (export_loop ?this2 rest)\<rparr>"
    by (rule Cons.IH)
  also have "\<dots> = this\<lparr>queue := queue (export_loop ?this2 rest)\<rparr>"
    by simp
  finally show ?case by (simp only: step)
qed

lemma export_loop_maxQueueSize: "maxQueueSize (export_loop this sps) = maxQueueSize this"
  by (subst export_loop_only_queue) simp

lemma export_loop_snoc:
  "export_loop this (ps @ [sp]) =
     (let this1 = export_loop this ps
      in this1\<lparr>queue :=
           (if maxQueueSize this \<le> real (length (queue this1))
            then tl (queue this1) else queue this1) @ [sp]\<rparr>)"
  by (simp add: export_loop_append Let_def export_loop_maxQueueSize)

lemma export_loop_room:
  assumes "real (length (queue this) + length sps) \<le> maxQueueSize this"
  shows "queue (export_loop this sps) = queue this @ sps"
  using assms
proof (induction sps rule: rev_induct)
  case Nil
  show ?case by simp
next
  case (snoc sp ps)
  from snoc.prems have room: "real (length (queue this) + length ps) + 1 \<le> maxQueueSize this"
    by simp
  then have "real (length (queue this) + length ps) \<le> maxQueueSize this" by simp
  then have q1: "queue (export_loop this ps) = queue this @ ps" by (rule snoc.IH)
  from room have "\<not> maxQueueSize this \<le> real (length (queue this @ ps))" by simp
  with q1 show ?case by (simp add: export_loop_snoc Let_def)
qed

lemma whole_capacity:
  assumes "isInteger m" and "1 \<le> m"
  shows "m = real (nat \<lfloor>m\<rfloor>)" and "1 \<le> nat \<lfloor>m\<rfloor>"
proof -
  from assms(1) have m: "real_of_int \<lfloor>m\<rfloor> = m" by (simp add: isInteger_def)
  from assms(2) have f: "1 \<le> \<lfloor>m\<rfloor>" by simp
  then show "1 \<le> nat \<lfloor>m\<rfloor>" by linarith
  from f have n: "real (nat \<lfloor>m\<rfloor>) = real_of_int \<lfloor>m\<rfloor>" by simp
  show "m = real (nat \<lfloor>m\<rfloor>)" unfolding n m by (rule refl)
qed

lemma export_loop_closed_form:
  assumes "isInteger (maxQueueSize this)" and "1 \<le> maxQueueSize this"
    and "real (length (queue this)) \<le> maxQueueSize this"
  shows "queue (export_loop this sps) =
           drop (length (queue this) + length sps - nat \<lfloor>maxQueueSize this\<rfloor>)
             (queue this @ sps)"
proof -
  define c where "c = nat \<lfloor>maxQueueSize this\<rfloor>"
  have cap: "maxQueueSize this = real c" and c1: "1 \<le> c"
    unfolding c_def by (rule whole_capacity [OF assms(1) assms(2)])+
  from assms(3) have q0: "length (queue this) \<le> c" by (simp add: cap)
  have "queue (export_loop this sps) =
          drop (length (queue this) + length sps - c) (queue this @ sps)"
  proof (induction sps rule: rev_induct)
    case Nil
    from q0 show ?case by simp
  next
    case (snoc sp ps)
    define t where "t = length (queue this) + length ps"
    have q1: "queue (export_loop this ps) = drop (t - c) (queue this @ ps)"
      using snoc.IH by (simp add: t_def)
    have "length (queue (export_loop this ps)) = t - (t - c)"
      by (simp add: q1 t_def)
    then have len: "length (queue (export_loop this ps)) = min t c"
      by arith
    show ?case
    proof (cases "c \<le> t")
      case True
      then have full: "maxQueueSize this \<le> real (length (queue (export_loop this ps)))"
        by (simp add: cap len)
      from True c1 have lt: "Suc (t - c) \<le> length (queue this @ ps)" by (simp add: t_def)
      have "tl (queue (export_loop this ps)) @ [sp] = drop (Suc (t - c)) (queue this @ ps) @ [sp]"
        by (simp only: q1 tl_drop drop_Suc)
      also have "\<dots> = drop (Suc (t - c)) ((queue this @ ps) @ [sp])"
        using lt by simp
      also have "Suc (t - c) = length (queue this) + length (ps @ [sp]) - c"
        using True by (simp add: t_def)
      finally show ?thesis
        using full by (simp add: export_loop_snoc Let_def)
    next
      case False
      then have room: "\<not> maxQueueSize this \<le> real (length (queue (export_loop this ps)))"
        by (simp add: cap len)
      from False have "queue (export_loop this ps) = queue this @ ps"
        by (simp add: q1)
      moreover from False have "length (queue this) + length (ps @ [sp]) - c = 0"
        by (simp add: t_def)
      ultimately show ?thesis
        using room by (simp add: export_loop_snoc Let_def)
    qed
  qed
  then show ?thesis by (simp add: c_def)
qed

lemma flushBatch_eq:
  "flushBatch this =
     (this\<lparr>queue := drop (nat \<lfloor>batchSize this\<rfloor>) (queue this)\<rparr>,
      if take (nat \<lfloor>batchSize this\<rfloor>) (queue this) = [] then None
      else Some \<lparr>resourceSpans = [\<lparr>scopeSpans =
             [\<lparr>spans = map spanToOtlp (take (nat \<lfloor>batchSize this\<rfloor>) (queue this))\<rparr>]\<rparr>]\<rparr>)"
  by (cases "queue this = []") (simp_all add: flushBatch_def Let_def)

lemma export_running:
  assumes "\<not> shutdown_flag this"
  shows "export this sps =
           (if batchSize this \<le> real (length (queue (export_loop this sps)))
            then (fst (flushBatch (export_loop this sps)),
                  snd (flushBatch (export_loop this sps)), SUCCESS)
            else (export_loop this sps, None, SUCCESS))"
proof -
  have "batchSize (export_loop this sps) = batchSize this"
    by (subst export_loop_only_queue) simp
  with assms show ?thesis
    by (simp add: export_def Let_def case_prod_beta)
qed

text \<open>
  C5 as stated fails in four places. After \<open>shutdown\<close> the guard at the head of
  \<open>export\<close> returns at once and the incoming span is not appended. On overflow the
  oldest span is dropped and the state changes in its queue alone: the exporter has
  no overflow counter. With \<open>maxQueueSize = 0\<close> the queue holds one span after an
  \<open>export\<close>, more than its capacity. And with \<open>maxQueueSize = 1.5\<close>, which the
  constructor stores as it is, the queue holds two spans.
\<close>

theorem export_shutdown_and_overflow_counterexample:
  "export ((new_HikariSpanExporter None (Some 1) None None)\<lparr>shutdown_flag := True\<rparr>)
     [(startSpan (sdk_tracer \<lparr>SpanContext.traceId = ''t1'', SpanContext.spanId = ''s1''\<rparr> (0, 0)) ''a'')] =
     ((new_HikariSpanExporter None (Some 1) None None)\<lparr>shutdown_flag := True\<rparr>,
      None, SUCCESS) \<and>
   queue ((new_HikariSpanExporter None (Some 1) None None)\<lparr>shutdown_flag := True\<rparr>) = [] \<and>
   export ((new_HikariSpanExporter None (Some 1) None None)\<lparr>queue := [(startSpan (sdk_tracer \<lparr>SpanContext.traceId = ''t1'', SpanContext.spanId = ''s1''\<rparr> (0, 0)) ''a'')]\<rparr>)
     [(startSpan (sdk_tracer \<lparr>SpanContext.traceId = ''t1'', SpanContext.spanId = ''s2''\<rparr> (1, 0)) ''b'')] =
     ((new_HikariSpanExporter None (Some 1) None None)\<lparr>queue := [(startSpan (sdk_tracer \<lparr>SpanContext.traceId = ''t1'', SpanContext.spanId = ''s2''\<rparr> (1, 0)) ''b'')]\<rparr>,
      None, SUCCESS) \<and>
   queue (new_HikariSpanExporter None (Some 0) None None) = [] \<and>
   maxQueueSize (new_HikariSpanExporter None (Some 0) None None) = 0 \<and>
   length (queue (fst (export (new_HikariSpanExporter None (Some 0) None None)
     [(startSpan (sdk_tracer \<lparr>SpanContext.traceId = ''t1'', SpanContext.spanId = ''s1''\<rparr> (0, 0)) ''a'')]))) = 1 \<and>
   maxQueueSize (new_HikariSpanExporter None (Some (3 / 2)) None None) = 3 / 2 \<and>
   length (queue (fst (export (new_HikariSpanExporter None (Some (3 / 2)) None None)
     [(startSpan (sdk_tracer \<lparr>SpanContext.traceId = ''t1'', SpanContext.spanId = ''s1''\<rparr> (0, 0)) ''a''), (startSpan (sdk_tracer \<lparr>SpanContext.traceId = ''t1'', SpanContext.spanId = ''s2''\<rparr> (1, 0)) ''b'')]))) = 2"
  by (simp add: export_def new_HikariSpanExporter_def Let_def flushBatch_def)

text \<open>
  C5, as amended. For an exporter that is not shut down, whose capacity is a whole
  number of at least one and whose queue is within it. The loop over no span leaves
  the exporter as it is. Each incoming span is appended at the tail, after the head
  is discarded when the queue is at capacity, and nothing else is changed. The queue
  stays within \<open>maxQueueSize\<close> after every span of the loop. \<open>export\<close> is this loop
  over the incoming spans, followed by \<open>flushBatch\<close> when the queue has reached
  \<open>batchSize\<close>; it returns normally and reports \<open>SUCCESS\<close>; the queue is within
  \<open>maxQueueSize\<close> when it returns; and it changes no field of the exporter but the
  queue, so there is no overflow counter to increment.
\<close>

theorem export_keeps_queue_within_capacity:
  assumes "\<not> shutdown_flag this" and "isInteger (maxQueueSize this)"
    and "1 \<le> maxQueueSize this"
    and "real (length (queue this)) \<le> maxQueueSize this"
  shows "export_loop this [] = this \<and>
         export_loop this (ps @ [sp]) =
           (let this1 = export_loop this ps
            in this1\<lparr>queue :=
                 (if maxQueueSize this \<le> real (length (queue this1))
                  then tl (queue this1) else queue this1) @ [sp]\<rparr>) \<and>
         real (length (queue (export_loop this ps))) \<le> maxQueueSize this \<and>
         export this sps =
           (if batchSize this \<le> real (length (queue (export_loop this sps)))
            then (fst (flushBatch (export_loop this sps)),
                  snd (flushBatch (export_loop this sps)), SUCCESS)
            else (export_loop this sps, None, SUCCESS)) \<and>
         real (length (queue (fst (export this sps)))) \<le> maxQueueSize this \<and>
         fst (export this sps) = this\<lparr>queue := queue (fst (export this sps))\<rparr>"
proof -
  have cap: "maxQueueSize this = real (nat \<lfloor>maxQueueSize this\<rfloor>)"
    by (rule whole_capacity(1) [OF assms(2) assms(3)])
  have bound: "real (length (queue (export_loop this xs))) \<le> maxQueueSize this" for xs
  proof -
    have "length (queue (export_loop this xs)) \<le> nat \<lfloor>maxQueueSize this\<rfloor>"
      using assms(4) cap
      by (simp add: export_loop_closed_form [OF assms(2) assms(3) assms(4)])
    then have "real (length (queue (export_loop this xs))) \<le> real (nat \<lfloor>maxQueueSize this\<rfloor>)"
      by (simp only: of_nat_le_iff)
    with cap show ?thesis by simp
  qed
  have run: "export this sps =
           (if batchSize this \<le> real (length (queue (export_loop this sps)))
            then (fst (flushBatch (export_loop this sps)),
                  snd (flushBatch (export_loop this sps)), SUCCESS)
            else (export_loop this sps, None, SUCCESS))"
    by (rule export_running [OF assms(1)])
  have "length (queue (fst (flushBatch (export_loop this sps)))) \<le>
          length (queue (export_loop this sps))"
    by (simp add: flushBatch_eq)
  then have "real (length (queue (fst (flushBatch (export_loop this sps))))) \<le> maxQueueSize this"
    using bound [of sps] by linarith
  with bound [of sps]
  have after: "real (length (queue (fst (export this sps)))) \<le> maxQueueSize this"
    by (simp add: run)
  have loop: "export_loop this sps = this\<lparr>queue := queue (export_loop this sps)\<rparr>"
    by (rule export_loop_only_queue)
  have "fst (flushBatch (export_loop this sps)) =
          this\<lparr>queue := queue (fst (flushBatch (export_loop this sps)))\<rparr>"
    by (subst flushBatch_eq, subst loop) (simp add: flushBatch_eq)
  with loop have frame: "fst (export this sps) = this\<lparr>queue := queue (fst (export this sps))\<rparr>"
    by (simp add: run)
  have base: "export_loop this [] = this" by simp
  from base export_loop_snoc [of this ps sp] bound [of ps] run after frame
  show ?thesis by blast
qed

theorem export_keeps_queue_within_capacity_witness:
  "export_loop ((new_HikariSpanExporter None (Some 2) None None)\<lparr>queue := [(startSpan (sdk_tracer \<lparr>SpanContext.traceId = ''t1'', SpanContext.spanId = ''s1''\<rparr> (0, 0)) ''a'')]\<rparr>)
     [(startSpan (sdk_tracer \<lparr>SpanContext.traceId = ''t1'', SpanContext.spanId = ''s2''\<rparr> (1, 0)) ''b''), (startSpan (sdk_tracer \<lparr>SpanContext.traceId = ''t1'', SpanContext.spanId = ''s3''\<rparr> (2, 0)) ''c'')] =
     (new_HikariSpanExporter None (Some 2) None None)\<lparr>queue := [(startSpan (sdk_tracer \<lparr>SpanContext.traceId = ''t1'', SpanContext.spanId = ''s2''\<rparr> (1, 0)) ''b''), (startSpan (sdk_tracer \<lparr>SpanContext.traceId = ''t1'', SpanContext.spanId = ''s3''\<rparr> (2, 0)) ''c'')]\<rparr> \<and>
   real (length (queue (export_loop
     ((new_HikariSpanExporter None (Some 2) None None)\<lparr>queue := [(startSpan (sdk_tracer \<lparr>SpanContext.traceId = ''t1'', SpanContext.spanId = ''s1''\<rparr> (0, 0)) ''a'')]\<rparr>) [(startSpan (sdk_tracer \<lparr>SpanContext.traceId = ''t1'', SpanContext.spanId = ''s2''\<rparr> (1, 0)) ''b'')]))) \<le> 2 \<and>
   export ((new_HikariSpanExporter None (Some 2) None None)\<lparr>queue := [(startSpan (sdk_tracer \<lparr>SpanContext.traceId = ''t1'', SpanContext.spanId = ''s1''\<rparr> (0, 0)) ''a'')]\<rparr>)
     [(startSpan (sdk_tracer \<lparr>SpanContext.traceId = ''t1'', SpanContext.spanId = ''s2''\<rparr> (1, 0)) ''b''), (startSpan (sdk_tracer \<lparr>SpanContext.traceId = ''t1'', SpanContext.spanId = ''s3''\<rparr> (2, 0)) ''c'')] =
     ((new_HikariSpanExporter None (Some 2) None None)\<lparr>queue := [(startSpan (sdk_tracer \<lparr>SpanContext.traceId = ''t1'', SpanContext.spanId = ''s2''\<rparr> (1, 0)) ''b''), (startSpan (sdk_tracer \<lparr>SpanContext.traceId = ''t1'', SpanContext.spanId = ''s3''\<rparr> (2, 0)) ''c'')]\<rparr>,
      None, SUCCESS) \<and>
   real (length (queue (fst (export
     ((new_HikariSpanExporter None (Some 2) None None)\<lparr>queue := [(startSpan (sdk_tracer \<lparr>SpanContext.traceId = ''t1'', SpanContext.spanId = ''s1''\<rparr> (0, 0)) ''a'')]\<rparr>) [(startSpan (sdk_tracer \<lparr>SpanContext.traceId = ''t1'', SpanContext.spanId = ''s2''\<rparr> (1, 0)) ''b''), (startSpan (sdk_tracer \<lparr>SpanContext.traceId = ''t1'', SpanContext.spanId = ''s3''\<rparr> (2, 0)) ''c'')])))) \<le> 2"
proof -
  let ?ex = "(new_HikariSpanExporter None (Some 2) None None)\<lparr>queue := [(startSpan (sdk_tracer \<lparr>SpanContext.traceId = ''t1'', SpanContext.spanId = ''s1''\<rparr> (0, 0)) ''a'')]\<rparr>"
  have h1: "\<not> shutdown_flag ?ex" by (simp add: new_HikariSpanExporter_def)
  have h2: "isInteger (maxQueueSize ?ex)"
    by (simp add: new_HikariSpanExporter_def isInteger_def)
  have h3: "1 \<le> maxQueueSize ?ex" by (simp add: new_HikariSpanExporter_def)
  have h4: "real (length (queue ?ex)) \<le> maxQueueSize ?ex"
    by (simp add: new_HikariSpanExporter_def)
  have m: "maxQueueSize ?ex = 2" by (simp add: new_HikariSpanExporter_def)
  have b: "batchSize ?ex = 100" by (simp add: new_HikariSpanExporter_def)
  have one: "export_loop ?ex [(startSpan (sdk_tracer \<lparr>SpanContext.traceId = ''t1'', SpanContext.spanId = ''s2''\<rparr> (1, 0)) ''b'')] =
               (new_HikariSpanExporter None (Some 2) None None)\<lparr>queue := [(startSpan (sdk_tracer \<lparr>SpanContext.traceId = ''t1'', SpanContext.spanId = ''s1''\<rparr> (0, 0)) ''a''), (startSpan (sdk_tracer \<lparr>SpanContext.traceId = ''t1'', SpanContext.spanId = ''s2''\<rparr> (1, 0)) ''b'')]\<rparr>"
    by (simp add: new_HikariSpanExporter_def Let_def)
  have two: "export_loop ?ex [(startSpan (sdk_tracer \<lparr>SpanContext.traceId = ''t1'', SpanContext.spanId = ''s2''\<rparr> (1, 0)) ''b''), (startSpan (sdk_tracer \<lparr>SpanContext.traceId = ''t1'', SpanContext.spanId = ''s3''\<rparr> (2, 0)) ''c'')] =
               (new_HikariSpanExporter None (Some 2) None None)\<lparr>queue := [(startSpan (sdk_tracer \<lparr>SpanContext.traceId = ''t1'', SpanContext.spanId = ''s2''\<rparr> (1, 0)) ''b''), (startSpan (sdk_tracer \<lparr>SpanContext.traceId = ''t1'', SpanContext.spanId = ''s3''\<rparr> (2, 0)) ''c'')]\<rparr>"
    by (simp add: new_HikariSpanExporter_def Let_def)
  from export_keeps_queue_within_capacity [OF h1 h2 h3 h4, of "[(startSpan (sdk_tracer \<lparr>SpanContext.traceId = ''t1'', SpanContext.spanId = ''s2''\<rparr> (1, 0)) ''b'')]" "(startSpan (sdk_tracer \<lparr>SpanContext.traceId = ''t1'', SpanContext.spanId = ''s3''\<rparr> (2, 0)) ''c'')" "[(startSpan (sdk_tracer \<lparr>SpanContext.traceId = ''t1'', SpanContext.spanId = ''s2''\<rparr> (1, 0)) ''b''), (startSpan (sdk_tracer \<lparr>SpanContext.traceId = ''t1'', SpanContext.spanId = ''s3''\<rparr> (2, 0)) ''c'')]"]
  show ?thesis
    by (simp add: m b one two)
qed

text \<open>
  C6. The queue is first-in first-out among the spans it keeps. The loop of
  \<open>export\<close> over no span leaves the exporter as it is; each further span is
  appended at the tail, and on overflow the head alone is removed before. While the
  incoming spans fit into the capacity the new queue is the old queue followed by
  the incoming spans, nothing dropped. With a whole capacity of at least one and a
  queue within it, the new queue is the old queue followed by the incoming spans
  without its first \<open>length queue + length spans - maxQueueSize\<close> elements: exactly
  the oldest spans in excess are dropped. \<open>flushBatch\<close> leaves the queue without its
  first \<open>batchSize\<close> spans and sends exactly these, converted span by span in the
  same order, or sends nothing when there is none. After \<open>shutdown\<close>, \<open>export\<close>
  changes and sends nothing; before, it is the loop followed by \<open>flushBatch\<close> when
  the queue has reached \<open>batchSize\<close>.
\<close>

theorem export_and_flushBatch_preserve_order:
  "export_loop this [] = this \<and>
   export_loop this (ps @ [sp]) =
     (let this1 = export_loop this ps
      in this1\<lparr>queue :=
           (if maxQueueSize this \<le> real (length (queue this1))
            then tl (queue this1) else queue this1) @ [sp]\<rparr>) \<and>
   (real (length (queue this) + length sps) \<le> maxQueueSize this \<longrightarrow>
      export_loop this sps = this\<lparr>queue := queue this @ sps\<rparr>) \<and>
   (isInteger (maxQueueSize this) \<and> 1 \<le> maxQueueSize this \<and>
    real (length (queue this)) \<le> maxQueueSize this \<longrightarrow>
      export_loop this sps =
        this\<lparr>queue :=
          drop (length (queue this) + length sps - nat \<lfloor>maxQueueSize this\<rfloor>)
            (queue this @ sps)\<rparr>) \<and>
   flushBatch this =
     (this\<lparr>queue := drop (nat \<lfloor>batchSize this\<rfloor>) (queue this)\<rparr>,
      if take (nat \<lfloor>batchSize this\<rfloor>) (queue this) = [] then None
      else Some \<lparr>resourceSpans = [\<lparr>scopeSpans =
             [\<lparr>spans = map spanToOtlp (take (nat \<lfloor>batchSize this\<rfloor>) (queue this))\<rparr>]\<rparr>]\<rparr>) \<and>
   (shutdown_flag this \<longrightarrow> export this sps = (this, None, SUCCESS)) \<and>
   (\<not> shutdown_flag this \<longrightarrow>
      export this sps =
        (if batchSize this \<le> real (length (queue (export_loop this sps)))
         then (fst (flushBatch (export_loop this sps)),
               snd (flushBatch (export_loop this sps)), SUCCESS)
         else (export_loop this sps, None, SUCCESS)))"
proof -
  have base: "export_loop this [] = this" by simp
  have room: "export_loop this sps = this\<lparr>queue := queue this @ sps\<rparr>"
    if "real (length (queue this) + length sps) \<le> maxQueueSize this"
    by (subst export_loop_only_queue) (simp add: export_loop_room [OF that])
  have closed: "export_loop this sps =
        this\<lparr>queue :=
          drop (length (queue this) + length sps - nat \<lfloor>maxQueueSize this\<rfloor>)
            (queue this @ sps)\<rparr>"
    if "isInteger (maxQueueSize this)" "1 \<le> maxQueueSize this"
      "real (length (queue this)) \<le> maxQueueSize this"
    by (subst export_loop_only_queue) (simp add: export_loop_closed_form [OF that])
  have stopped: "export this sps = (this, None, SUCCESS)" if "shutdown_flag this"
    using that by (simp add: export_def)
  from base export_loop_snoc [of this ps sp] room closed flushBatch_eq [of this] stopped
    export_running [of this sps]
  show ?thesis by blast
qed

theorem export_and_flushBatch_preserve_order_witness:
  "export_loop ((new_HikariSpanExporter None (Some 2) (Some 2) None)\<lparr>queue := [(startSpan (sdk_tracer \<lparr>SpanContext.traceId = ''t1'', SpanContext.spanId = ''s1''\<rparr> (0, 0)) ''a'')]\<rparr>)
     [(startSpan (sdk_tracer \<lparr>SpanContext.traceId = ''t1'', SpanContext.spanId = ''s2''\<rparr> (1, 0)) ''b'')] =
     (new_HikariSpanExporter None (Some 2) (Some 2) None)\<lparr>queue := [(startSpan (sdk_tracer \<lparr>SpanContext.traceId = ''t1'', SpanContext.spanId = ''s1''\<rparr> (0, 0)) ''a''), (startSpan (sdk_tracer \<lparr>SpanContext.traceId = ''t1'', SpanContext.spanId = ''s2''\<rparr> (1, 0)) ''b'')]\<rparr> \<and>
   export_loop ((new_HikariSpanExporter None (Some 2) (Some 2) None)\<lparr>queue := [(startSpan (sdk_tracer \<lparr>SpanContext.traceId = ''t1'', SpanContext.spanId = ''s1''\<rparr> (0, 0)) ''a'')]\<rparr>)
     [(startSpan (sdk_tracer \<lparr>SpanContext.traceId = ''t1'', SpanContext.spanId = ''s2''\<rparr> (1, 0)) ''b''), (startSpan (sdk_tracer \<lparr>SpanContext.traceId = ''t1'', SpanContext.spanId = ''s3''\<rparr> (2, 0)) ''c'')] =
     (new_HikariSpanExporter None (Some 2) (Some 2) None)\<lparr>queue := [(startSpan (sdk_tracer \<lparr>SpanContext.traceId = ''t1'', SpanContext.spanId = ''s2''\<rparr> (1, 0)) ''b''), (startSpan (sdk_tracer \<lparr>SpanContext.traceId = ''t1'', SpanContext.spanId = ''s3''\<rparr> (2, 0)) ''c'')]\<rparr> \<and>
   export ((new_HikariSpanExporter None (Some 2) (Some 2) None)\<lparr>queue := [(startSpan (sdk_tracer \<lparr>SpanContext.traceId = ''t1'', SpanContext.spanId = ''s1''\<rparr> (0, 0)) ''a'')]\<rparr>)
     [(startSpan (sdk_tracer \<lparr>SpanContext.traceId = ''t1'', SpanContext.spanId = ''s2''\<rparr> (1, 0)) ''b''), (startSpan (sdk_tracer \<lparr>SpanContext.traceId = ''t1'', SpanContext.spanId = ''s3''\<rparr> (2, 0)) ''c'')] =
     ((new_HikariSpanExporter None (Some 2) (Some 2) None)\<lparr>queue := []\<rparr>,
      Some \<lparr>resourceSpans = [\<lparr>scopeSpans = [\<lparr>spans = [spanToOtlp (startSpan (sdk_tracer \<lparr>SpanContext.traceId = ''t1'', SpanContext.spanId = ''s2''\<rparr> (1, 0)) ''b''), spanToOtlp (startSpan (sdk_tracer \<lparr>SpanContext.traceId = ''t1'', SpanContext.spanId = ''s3''\<rparr> (2, 0)) ''c'')]\<rparr>]\<rparr>]\<rparr>,
      SUCCESS) \<and>
   export ((new_HikariSpanExporter None (Some 2) (Some 2) None)\<lparr>shutdown_flag := True\<rparr>)
     [(startSpan (sdk_tracer \<lparr>SpanContext.traceId = ''t1'', SpanContext.spanId = ''s2''\<rparr> (1, 0)) ''b''), (startSpan (sdk_tracer \<lparr>SpanContext.traceId = ''t1'', SpanContext.spanId = ''s3''\<rparr> (2, 0)) ''c'')] =
     ((new_HikariSpanExporter None (Some 2) (Some 2) None)\<lparr>shutdown_flag := True\<rparr>,
      None, SUCCESS)"
proof -
  let ?ex = "(new_HikariSpanExporter None (Some 2) (Some 2) None)\<lparr>queue := [(startSpan (sdk_tracer \<lparr>SpanContext.traceId = ''t1'', SpanContext.spanId = ''s1''\<rparr> (0, 0)) ''a'')]\<rparr>"
  let ?down = "(new_HikariSpanExporter None (Some 2) (Some 2) None)\<lparr>shutdown_flag := True\<rparr>"
  have run: "\<not> shutdown_flag ?ex" by (simp add: new_HikariSpanExporter_def)
  have down: "shutdown_flag ?down" by simp
  have m: "maxQueueSize ?ex = 2" by (simp add: new_HikariSpanExporter_def)
  have b: "batchSize ?ex = 2" by (simp add: new_HikariSpanExporter_def)
  have q: "queue ?ex = [(startSpan (sdk_tracer \<lparr>SpanContext.traceId = ''t1'', SpanContext.spanId = ''s1''\<rparr> (0, 0)) ''a'')]" by simp
  have whole: "isInteger (maxQueueSize ?ex) \<and> 1 \<le> maxQueueSize ?ex \<and>
               real (length (queue ?ex)) \<le> maxQueueSize ?ex"
    by (simp add: m isInteger_def)
  have fits: "real (length (queue ?ex) + length [(startSpan (sdk_tracer \<lparr>SpanContext.traceId = ''t1'', SpanContext.spanId = ''s2''\<rparr> (1, 0)) ''b'')]) \<le> maxQueueSize ?ex"
    by (simp add: m)
  note room = export_and_flushBatch_preserve_order [of ?ex "[]" "(startSpan (sdk_tracer \<lparr>SpanContext.traceId = ''t1'', SpanContext.spanId = ''s2''\<rparr> (1, 0)) ''b'')" "[(startSpan (sdk_tracer \<lparr>SpanContext.traceId = ''t1'', SpanContext.spanId = ''s2''\<rparr> (1, 0)) ''b'')]"]
  note full = export_and_flushBatch_preserve_order [of ?ex "[]" "(startSpan (sdk_tracer \<lparr>SpanContext.traceId = ''t1'', SpanContext.spanId = ''s2''\<rparr> (1, 0)) ''b'')" "[(startSpan (sdk_tracer \<lparr>SpanContext.traceId = ''t1'', SpanContext.spanId = ''s2''\<rparr> (1, 0)) ''b''), (startSpan (sdk_tracer \<lparr>SpanContext.traceId = ''t1'', SpanContext.spanId = ''s3''\<rparr> (2, 0)) ''c'')]"]
  note stop = export_and_flushBatch_preserve_order [of ?down "[]" "(startSpan (sdk_tracer \<lparr>SpanContext.traceId = ''t1'', SpanContext.spanId = ''s2''\<rparr> (1, 0)) ''b'')" "[(startSpan (sdk_tracer \<lparr>SpanContext.traceId = ''t1'', SpanContext.spanId = ''s2''\<rparr> (1, 0)) ''b''), (startSpan (sdk_tracer \<lparr>SpanContext.traceId = ''t1'', SpanContext.spanId = ''s3''\<rparr> (2, 0)) ''c'')]"]
  have one: "export_loop ?ex [(startSpan (sdk_tracer \<lparr>SpanContext.traceId = ''t1'', SpanContext.spanId = ''s2''\<rparr> (1, 0)) ''b'')] = ?ex\<lparr>queue := queue ?ex @ [(startSpan (sdk_tracer \<lparr>SpanContext.traceId = ''t1'', SpanContext.spanId = ''s2''\<rparr> (1, 0)) ''b'')]\<rparr>"
    by (rule room [THEN conjunct2, THEN conjunct2, THEN conjunct1, THEN mp, OF fits])
  have two: "export_loop ?ex [(startSpan (sdk_tracer \<lparr>SpanContext.traceId = ''t1'', SpanContext.spanId = ''s2''\<rparr> (1, 0)) ''b''), (startSpan (sdk_tracer \<lparr>SpanContext.traceId = ''t1'', SpanContext.spanId = ''s3''\<rparr> (2, 0)) ''c'')] =
        ?ex\<lparr>queue :=
          drop (length (queue ?ex) + length [(startSpan (sdk_tracer \<lparr>SpanContext.traceId = ''t1'', SpanContext.spanId = ''s2''\<rparr> (1, 0)) ''b''), (startSpan (sdk_tracer \<lparr>SpanContext.traceId = ''t1'', SpanContext.spanId = ''s3''\<rparr> (2, 0)) ''c'')] - nat \<lfloor>maxQueueSize ?ex\<rfloor>)
            (queue ?ex @ [(startSpan (sdk_tracer \<lparr>SpanContext.traceId = ''t1'', SpanContext.spanId = ''s2''\<rparr> (1, 0)) ''b''), (startSpan (sdk_tracer \<lparr>SpanContext.traceId = ''t1'', SpanContext.spanId = ''s3''\<rparr> (2, 0)) ''c'')])\<rparr>"
    using full [THEN conjunct2, THEN conjunct2, THEN conjunct2, THEN conjunct1, THEN mp,
          OF whole] by simp
  have three: "export ?ex [(startSpan (sdk_tracer \<lparr>SpanContext.traceId = ''t1'', SpanContext.spanId = ''s2''\<rparr> (1, 0)) ''b''), (startSpan (sdk_tracer \<lparr>SpanContext.traceId = ''t1'', SpanContext.spanId = ''s3''\<rparr> (2, 0)) ''c'')] =
        (if batchSize ?ex \<le> real (length (queue (export_loop ?ex [(startSpan (sdk_tracer \<lparr>SpanContext.traceId = ''t1'', SpanContext.spanId = ''s2''\<rparr> (1, 0)) ''b''), (startSpan (sdk_tracer \<lparr>SpanContext.traceId = ''t1'', SpanContext.spanId = ''s3''\<rparr> (2, 0)) ''c'')])))
         then (fst (flushBatch (export_loop ?ex [(startSpan (sdk_tracer \<lparr>SpanContext.traceId = ''t1'', SpanContext.spanId = ''s2''\<rparr> (1, 0)) ''b''), (startSpan (sdk_tracer \<lparr>SpanContext.traceId = ''t1'', SpanContext.spanId = ''s3''\<rparr> (2, 0)) ''c'')])),
               snd (flushBatch (export_loop ?ex [(startSpan (sdk_tracer \<lparr>SpanContext.traceId = ''t1'', SpanContext.spanId = ''s2''\<rparr> (1, 0)) ''b''), (startSpan (sdk_tracer \<lparr>SpanContext.traceId = ''t1'', SpanContext.spanId = ''s3''\<rparr> (2, 0)) ''c'')])), SUCCESS)
         else (export_loop ?ex [(startSpan (sdk_tracer \<lparr>SpanContext.traceId = ''t1'', SpanContext.spanId = ''s2''\<rparr> (1, 0)) ''b''), (startSpan (sdk_tracer \<lparr>SpanContext.traceId = ''t1'', SpanContext.spanId = ''s3''\<rparr> (2, 0)) ''c'')], None, SUCCESS))"
    by (rule full [THEN conjunct2, THEN conjunct2, THEN conjunct2, THEN conjunct2,
          THEN conjunct2, THEN conjunct2, THEN mp, OF run])
  have four: "export ?down [(startSpan (sdk_tracer \<lparr>SpanContext.traceId = ''t1'', SpanContext.spanId = ''s2''\<rparr> (1, 0)) ''b''), (startSpan (sdk_tracer \<lparr>SpanContext.traceId = ''t1'', SpanContext.spanId = ''s3''\<rparr> (2, 0)) ''c'')] = (?down, None, SUCCESS)"
    by (rule stop [THEN conjunct2, THEN conjunct2, THEN conjunct2, THEN conjunct2,
          THEN conjunct2, THEN conjunct1, THEN mp, OF down])
  have two': "export_loop ?ex [(startSpan (sdk_tracer \<lparr>SpanContext.traceId = ''t1'', SpanContext.spanId = ''s2''\<rparr> (1, 0)) ''b''), (startSpan (sdk_tracer \<lparr>SpanContext.traceId = ''t1'', SpanContext.spanId = ''s3''\<rparr> (2, 0)) ''c'')] =
     (new_HikariSpanExporter None (Some 2) (Some 2) None)\<lparr>queue := [(startSpan (sdk_tracer \<lparr>SpanContext.traceId = ''t1'', SpanContext.spanId = ''s2''\<rparr> (1, 0)) ''b''), (startSpan (sdk_tracer \<lparr>SpanContext.traceId = ''t1'', SpanContext.spanId = ''s3''\<rparr> (2, 0)) ''c'')]\<rparr>"
    unfolding two by (simp add: m)
  have three': "export ?ex [(startSpan (sdk_tracer \<lparr>SpanContext.traceId = ''t1'', SpanContext.spanId = ''s2''\<rparr> (1, 0)) ''b''), (startSpan (sdk_tracer \<lparr>SpanContext.traceId = ''t1'', SpanContext.spanId = ''s3''\<rparr> (2, 0)) ''c'')] =
     ((new_HikariSpanExporter None (Some 2) (Some 2) None)\<lparr>queue := []\<rparr>,
      Some \<lparr>resourceSpans = [\<lparr>scopeSpans = [\<lparr>spans = [spanToOtlp (startSpan (sdk_tracer \<lparr>SpanContext.traceId = ''t1'', SpanContext.spanId = ''s2''\<rparr> (1, 0)) ''b''), spanToOtlp (startSpan (sdk_tracer \<lparr>SpanContext.traceId = ''t1'', SpanContext.spanId = ''s3''\<rparr> (2, 0)) ''c'')]\<rparr>]\<rparr>]\<rparr>,
      SUCCESS)"
    unfolding three two' by (simp add: flushBatch_def new_HikariSpanExporter_def Let_def)
  from one two' three' four show ?thesis by simp
qed

section \<open>Properties of the continuous aggregates\<close>

text \<open>
  The query keeps the rows with a known total cost, has one output row per group of
  them, and fills each output row from the rows of its group.
\<close>

lemma cost_aggregate_filter:
  "cost_aggregate width (filter (\<lambda>r. cost_total r \<noteq> None) tbl) = cost_aggregate width tbl"
  by (simp add: cost_aggregate_def)

lemma cost_aggregate_keys:
  "map view_key (cost_aggregate width tbl) =
     remdups (map (group_by width) (filter (\<lambda>r. cost_total r \<noteq> None) tbl))"
proof -
  have "view_key \<circ> (\<lambda>(b, p, s, m, pr).
          \<lparr>bucket = b, cost_row.pipeline_id = p, cost_row.stage = s, cost_row.model = m,
           cost_row.provider = pr,
           total_cost = f1 (b, p, s, m, pr), total_tokens_input = f2 (b, p, s, m, pr),
           total_tokens_output = f3 (b, p, s, m, pr), span_count = f4 (b, p, s, m, pr),
           avg_cost_per_span = f5 (b, p, s, m, pr)\<rparr>) = id" for f1 f2 f3 f4 f5
    by (auto simp: view_key_def fun_eq_iff)
  then show ?thesis
    by (simp add: cost_aggregate_def Let_def case_prod_beta view_key_def comp_def)
qed

lemma cost_aggregate_row:
  assumes "v \<in> set (cost_aggregate width tbl)"
  defines "g \<equiv> filter (\<lambda>r. cost_total r \<noteq> None \<and> group_by width r = view_key v) tbl"
  shows "total_cost v = sql_sum (map cost_total g)"
    and "total_tokens_input v = sql_sum (map tokens_input g)"
    and "total_tokens_output v = sql_sum (map tokens_output g)"
    and "span_count v = int (length g)"
    and "avg_cost_per_span v = sql_avg (map cost_total g)"
    and "g \<noteq> []"
proof -
  let ?rows = "filter (\<lambda>r. cost_total r \<noteq> None) tbl"
  from assms(1) obtain k where k: "k \<in> set (map (group_by width) ?rows)"
    and v: "v = (case k of (b, p, s, m, pr) \<Rightarrow>
                let g = filter (\<lambda>r. group_by width r = (b, p, s, m, pr)) ?rows
                in \<lparr>bucket = b, cost_row.pipeline_id = p, cost_row.stage = s,
                    cost_row.model = m, cost_row.provider = pr,
                    total_cost = sql_sum (map cost_total g),
                    total_tokens_input = sql_sum (map tokens_input g),
                    total_tokens_output = sql_sum (map tokens_output g),
                    span_count = int (length g),
                    avg_cost_per_span = sql_avg (map cost_total g)\<rparr>)"
    by (auto simp: cost_aggregate_def Let_def)
  obtain b p s m pr where kk: "k = (b, p, s, m, pr)" by (cases k)
  have key: "view_key v = k" by (simp add: v kk view_key_def Let_def)
  have g: "g = filter (\<lambda>r. group_by width r = k) ?rows"
    by (simp add: g_def key conj_commute)
  show "total_cost v = sql_sum (map cost_total g)"
    "total_tokens_input v = sql_sum (map tokens_input g)"
    "total_tokens_output v = sql_sum (map tokens_output g)"
    "span_count v = int (length g)"
    "avg_cost_per_span v = sql_avg (map cost_total g)"
    by (simp_all add: g v kk Let_def)
  from k obtain r where "r \<in> set ?rows" "group_by width r = k" by auto
  then have "r \<in> set g" by (simp add: g)
  then show "g \<noteq> []" by auto
qed

lemma sql_sum_all_known:
  assumes "\<forall>r \<in> set g. f r \<noteq> None" and "g \<noteq> []"
  shows "sql_sum (map f g) = Some (sum_list (map (\<lambda>r. the (f r)) g))"
proof -
  have "concat (map (\<lambda>v. case v of None \<Rightarrow> [] | Some x \<Rightarrow> [x]) (map f g)) =
          map (\<lambda>r. the (f r)) g"
    using assms(1) by (induction g) auto
  with assms(2) show ?thesis by (simp add: sql_sum_def)
qed


text \<open>
  C7. For each of \<open>cost_hourly\<close>, \<open>cost_daily\<close> and \<open>cost_weekly\<close>, with its
  bucket width, and every content of the table \<open>spans\<close>: the view is the same as
  over the table without its rows of null \<open>cost_total\<close>; it has exactly one row for
  each value of (bucket, pipeline_id, stage, model, provider) among the rows of
  non-null \<open>cost_total\<close>; and in each view row, over the rows of non-null
  \<open>cost_total\<close> with that key, \<open>total_cost\<close> is the sum of \<open>cost_total\<close>, the
  two token totals are the SQL sums of the token columns, \<open>span_count\<close> is the
  number of these rows and \<open>avg_cost_per_span\<close> is the sum over that number. A
  row of null \<open>cost_total\<close> adds to no column, the count included.
\<close>

theorem cost_views_skip_null_cost_rows:
  "\<forall>(view, width) \<in> {(cost_hourly, one_hour), (cost_daily, one_day), (cost_weekly, one_week)}.
     view tbl = view (filter (\<lambda>r. cost_total r \<noteq> None) tbl) \<and>
     distinct (map view_key (view tbl)) \<and>
     set (map view_key (view tbl)) = group_by width ` {r \<in> set tbl. cost_total r \<noteq> None} \<and>
     (\<forall>v \<in> set (view tbl).
        let g = filter (\<lambda>r. cost_total r \<noteq> None \<and> group_by width r = view_key v) tbl
        in g \<noteq> [] \<and>
           total_cost v = Some (sum_list (map (\<lambda>r. the (cost_total r)) g)) \<and>
           total_tokens_input v = sql_sum (map tokens_input g) \<and>
           total_tokens_output v = sql_sum (map tokens_output g) \<and>
           span_count v = int (length g) \<and>
           avg_cost_per_span v =
             Some (sum_list (map (\<lambda>r. the (cost_total r)) g) / real (length g)))"
proof -
  have generic:
    "cost_aggregate width tbl =
       cost_aggregate width (filter (\<lambda>r. cost_total r \<noteq> None) tbl) \<and>
     distinct (map view_key (cost_aggregate width tbl)) \<and>
     set (map view_key (cost_aggregate width tbl)) =
       group_by width ` {r \<in> set tbl. cost_total r \<noteq> None} \<and>
     (\<forall>v \<in> set (cost_aggregate width tbl).
        let g = filter (\<lambda>r. cost_total r \<noteq> None \<and> group_by width r = view_key v) tbl
        in g \<noteq> [] \<and>
           total_cost v = Some (sum_list (map (\<lambda>r. the (cost_total r)) g)) \<and>
           total_tokens_input v = sql_sum (map tokens_input g) \<and>
           total_tokens_output v = sql_sum (map tokens_output g) \<and>
           span_count v = int (length g) \<and>
           avg_cost_per_span v =
             Some (sum_list (map (\<lambda>r. the (cost_total r)) g) / real (length g)))"
    for width
  proof (intro conjI ballI)
    show "cost_aggregate width tbl =
            cost_aggregate width (filter (\<lambda>r. cost_total r \<noteq> None) tbl)"
      by (rule cost_aggregate_filter [symmetric])
    show "distinct (map view_key (cost_aggregate width tbl))"
      by (simp add: cost_aggregate_keys)
    show "set (map view_key (cost_aggregate width tbl)) =
            group_by width ` {r \<in> set tbl. cost_total r \<noteq> None}"
      by (simp add: cost_aggregate_keys)
  next
    fix v
    assume v: "v \<in> set (cost_aggregate width tbl)"
    define g where "g = filter (\<lambda>r. cost_total r \<noteq> None \<and> group_by width r = view_key v) tbl"
    have known: "\<forall>r \<in> set g. cost_total r \<noteq> None" by (simp add: g_def)
    have ne: "g \<noteq> []" unfolding g_def by (rule cost_aggregate_row(6) [OF v])
    have total: "total_cost v = Some (sum_list (map (\<lambda>r. the (cost_total r)) g))"
      unfolding g_def
      using cost_aggregate_row(1) [OF v] sql_sum_all_known [OF known ne]
      by (simp add: g_def)
    have "concat (map (\<lambda>v. case v of None \<Rightarrow> [] | Some x \<Rightarrow> [x]) (map cost_total g)) =
            map (\<lambda>r. the (cost_total r)) g"
      using known by (induction g) auto
    with ne have "sql_avg (map cost_total g) =
                    Some (sum_list (map (\<lambda>r. the (cost_total r)) g) / real (length g))"
      by (simp add: sql_avg_def)
    with cost_aggregate_row(5) [OF v]
    have avg: "avg_cost_per_span v =
                 Some (sum_list (map (\<lambda>r. the (cost_total r)) g) / real (length g))"
      by (simp add: g_def)
    from ne total avg cost_aggregate_row(2) [OF v] cost_aggregate_row(3) [OF v]
      cost_aggregate_row(4) [OF v]
    show "let g = filter (\<lambda>r. cost_total r \<noteq> None \<and> group_by width r = view_key v) tbl
        in g \<noteq> [] \<and>
           total_cost v = Some (sum_list (map (\<lambda>r. the (cost_total r)) g)) \<and>
           total_tokens_input v = sql_sum (map tokens_input g) \<and>
           total_tokens_output v = sql_sum (map tokens_output g) \<and>
           span_count v = int (length g) \<and>
           avg_cost_per_span v =
             Some (sum_list (map (\<lambda>r. the (cost_total r)) g) / real (length g))"
      by (simp add: g_def Let_def)
  qed
  have views: "cost_hourly = cost_aggregate one_hour" "cost_daily = cost_aggregate one_day"
    "cost_weekly = cost_aggregate one_week"
    by (simp_all add: fun_eq_iff cost_hourly_def cost_daily_def cost_weekly_def)
  define holds where "holds = (\<lambda>(view :: spans_row list \<Rightarrow> cost_row list) width.
     view tbl = view (filter (\<lambda>r. cost_total r \<noteq> None) tbl) \<and>
     distinct (map view_key (view tbl)) \<and>
     set (map view_key (view tbl)) = group_by width ` {r \<in> set tbl. cost_total r \<noteq> None} \<and>
     (\<forall>v \<in> set (view tbl).
        let g = filter (\<lambda>r. cost_total r \<noteq> None \<and> group_by width r = view_key v) tbl
        in g \<noteq> [] \<and>
           total_cost v = Some (sum_list (map (\<lambda>r. the (cost_total r)) g)) \<and>
           total_tokens_input v = sql_sum (map tokens_input g) \<and>
           total_tokens_output v = sql_sum (map tokens_output g) \<and>
           span_count v = int (length g) \<and>
           avg_cost_per_span v =
             Some (sum_list (map (\<lambda>r. the (cost_total r)) g) / real (length g))))"
  have "holds cost_hourly one_hour" "holds cost_daily one_day" "holds cost_weekly one_week"
    unfolding holds_def views by (rule generic)+
  then have "\<forall>(view, width) \<in> {(cost_hourly, one_hour), (cost_daily, one_day),
                                  (cost_weekly, one_week)}. holds view width"
    by simp
  then show ?thesis unfolding holds_def .
qed

theorem cost_views_skip_null_cost_rows_witness:
  "cost_hourly
      [\<lparr>time = 1700000000000000, trace_id = ''tr-1'', span_id = ''s1'', span_name = ''openai.chat.completions.create'',
        spans_row.pipeline_id = ''pipe-a'', spans_row.stage = ''extract'', spans_row.model = ''gpt-4o'',
        spans_row.provider = ''openai'', tokens_input = Some 100, tokens_output = Some 50,
        cost_input = Some (1 / 400), cost_output = Some (3 / 400), cost_total = Some (1 / 100), duration_ms = 12\<rparr>,
       \<lparr>time = 1700000002000000, trace_id = ''tr-1'', span_id = ''s3'', span_name = ''openai.chat.completions.create'',
        spans_row.pipeline_id = ''pipe-a'', spans_row.stage = ''extract'', spans_row.model = ''gpt-4o'',
        spans_row.provider = ''openai'', tokens_input = Some 9, tokens_output = Some 9,
        cost_input = None, cost_output = None, cost_total = None, duration_ms = 12\<rparr>,
       \<lparr>time = 1700000001000000, trace_id = ''tr-1'', span_id = ''s2'', span_name = ''openai.chat.completions.create'',
        spans_row.pipeline_id = ''pipe-a'', spans_row.stage = ''extract'', spans_row.model = ''gpt-4o'',
        spans_row.provider = ''openai'', tokens_input = None, tokens_output = Some 7,
        cost_input = Some (1 / 100), cost_output = Some (1 / 100), cost_total = Some (2 / 100), duration_ms = 12\<rparr>] =
     [\<lparr>bucket = 1699999200000000, cost_row.pipeline_id = ''pipe-a'', cost_row.stage = ''extract'',
        cost_row.model = ''gpt-4o'', cost_row.provider = ''openai'', total_cost = Some (3 / 100),
        total_tokens_input = Some 100, total_tokens_output = Some 57, span_count = 2,
        avg_cost_per_span = Some (3 / 200)\<rparr>] \<and>
   cost_hourly
      [\<lparr>time = 1700000000000000, trace_id = ''tr-1'', span_id = ''s1'', span_name = ''openai.chat.completions.create'',
        spans_row.pipeline_id = ''pipe-a'', spans_row.stage = ''extract'', spans_row.model = ''gpt-4o'',
        spans_row.provider = ''openai'', tokens_input = Some 100, tokens_output = Some 50,
        cost_input = Some (1 / 400), cost_output = Some (3 / 400), cost_total = Some (1 / 100), duration_ms = 12\<rparr>,
       \<lparr>time = 1700000002000000, trace_id = ''tr-1'', span_id = ''s3'', span_name = ''openai.chat.completions.create'',
        spans_row.pipeline_id = ''pipe-a'', spans_row.stage = ''extract'', spans_row.model = ''gpt-4o'',
        spans_row.provider = ''openai'', tokens_input = Some 9, tokens_output = Some 9,
        cost_input = None, cost_output = None, cost_total = None, duration_ms = 12\<rparr>,
       \<lparr>time = 1700000001000000, trace_id = ''tr-1'', span_id = ''s2'', span_name = ''openai.chat.completions.create'',
        spans_row.pipeline_id = ''pipe-a'', spans_row.stage = ''extract'', spans_row.model = ''gpt-4o'',
        spans_row.provider = ''openai'', tokens_input = None, tokens_output = Some 7,
        cost_input = Some (1 / 100), cost_output = Some (1 / 100), cost_total = Some (2 / 100), duration_ms = 12\<rparr>] =
     cost_hourly
      [\<lparr>time = 1700000000000000, trace_id = ''tr-1'', span_id = ''s1'', span_name = ''openai.chat.completions.create'',
        spans_row.pipeline_id = ''pipe-a'', spans_row.stage = ''extract'', spans_row.model = ''gpt-4o'',
        spans_row.provider = ''openai'', tokens_input = Some 100, tokens_output = Some 50,
        cost_input = Some (1 / 400), cost_output = Some (3 / 400), cost_total = Some (1 / 100), duration_ms = 12\<rparr>,
       \<lparr>time = 1700000001000000, trace_id = ''tr-1'', span_id = ''s2'', span_name = ''openai.chat.completions.create'',
        spans_row.pipeline_id = ''pipe-a'', spans_row.stage = ''extract'', spans_row.model = ''gpt-4o'',
        spans_row.provider = ''openai'', tokens_input = None, tokens_output = Some 7,
        cost_input = Some (1 / 100), cost_output = Some (1 / 100), cost_total = Some (2 / 100), duration_ms = 12\<rparr>]"
proof -
  have ev: "cost_hourly
      [\<lparr>time = 1700000000000000, trace_id = ''tr-1'', span_id = ''s1'', span_name = ''openai.chat.completions.create'',
        spans_row.pipeline_id = ''pipe-a'', spans_row.stage = ''extract'', spans_row.model = ''gpt-4o'',
        spans_row.provider = ''openai'', tokens_input = Some 100, tokens_output = Some 50,
        cost_input = Some (1 / 400), cost_output = Some (3 / 400), cost_total = Some (1 / 100), duration_ms = 12\<rparr>,
       \<lparr>time = 1700000001000000, trace_id = ''tr-1'', span_id = ''s2'', span_name = ''openai.chat.completions.create'',
        spans_row.pipeline_id = ''pipe-a'', spans_row.stage = ''extract'', spans_row.model = ''gpt-4o'',
        spans_row.provider = ''openai'', tokens_input = None, tokens_output = Some 7,
        cost_input = Some (1 / 100), cost_output = Some (1 / 100), cost_total = Some (2 / 100), duration_ms = 12\<rparr>] =
     [\<lparr>bucket = 1699999200000000, cost_row.pipeline_id = ''pipe-a'', cost_row.stage = ''extract'',
        cost_row.model = ''gpt-4o'', cost_row.provider = ''openai'', total_cost = Some (3 / 100),
        total_tokens_input = Some 100, total_tokens_output = Some 57, span_count = 2,
        avg_cost_per_span = Some (3 / 200)\<rparr>]"
    by code_simp
  have keep: "filter (\<lambda>r. cost_total r \<noteq> None)
      [\<lparr>time = 1700000000000000, trace_id = ''tr-1'', span_id = ''s1'', span_name = ''openai.chat.completions.create'',
        spans_row.pipeline_id = ''pipe-a'', spans_row.stage = ''extract'', spans_row.model = ''gpt-4o'',
        spans_row.provider = ''openai'', tokens_input = Some 100, tokens_output = Some 50,
        cost_input = Some (1 / 400), cost_output = Some (3 / 400), cost_total = Some (1 / 100), duration_ms = 12\<rparr>,
       \<lparr>time = 1700000002000000, trace_id = ''tr-1'', span_id = ''s3'', span_name = ''openai.chat.completions.create'',
        spans_row.pipeline_id = ''pipe-a'', spans_row.stage = ''extract'', spans_row.model = ''gpt-4o'',
        spans_row.provider = ''openai'', tokens_input = Some 9, tokens_output = Some 9,
        cost_input = None, cost_output = None, cost_total = None, duration_ms = 12\<rparr>,
       \<lparr>time = 1700000001000000, trace_id = ''tr-1'', span_id = ''s2'', span_name = ''openai.chat.completions.create'',
        spans_row.pipeline_id = ''pipe-a'', spans_row.stage = ''extract'', spans_row.model = ''gpt-4o'',
        spans_row.provider = ''openai'', tokens_input = None, tokens_output = Some 7,
        cost_input = Some (1 / 100), cost_output = Some (1 / 100), cost_total = Some (2 / 100), duration_ms = 12\<rparr>] =
      [\<lparr>time = 1700000000000000, trace_id = ''tr-1'', span_id = ''s1'', span_name = ''openai.chat.completions.create'',
        spans_row.pipeline_id = ''pipe-a'', spans_row.stage = ''extract'', spans_row.model = ''gpt-4o'',
        spans_row.provider = ''openai'', tokens_input = Some 100, tokens_output = Some 50,
        cost_input = Some (1 / 400), cost_output = Some (3 / 400), cost_total = Some (1 / 100), duration_ms = 12\<rparr>,
       \<lparr>time = 1700000001000000, trace_id = ''tr-1'', span_id = ''s2'', span_name = ''openai.chat.completions.create'',
        spans_row.pipeline_id = ''pipe-a'', spans_row.stage = ''extract'', spans_row.model = ''gpt-4o'',
        spans_row.provider = ''openai'', tokens_input = None, tokens_output = Some 7,
        cost_input = Some (1 / 100), cost_output = Some (1 / 100), cost_total = Some (2 / 100), duration_ms = 12\<rparr>]"
    by code_simp
  have "cost_hourly
      [\<lparr>time = 1700000000000000, trace_id = ''tr-1'', span_id = ''s1'', span_name = ''openai.chat.completions.create'',
        spans_row.pipeline_id = ''pipe-a'', spans_row.stage = ''extract'', spans_row.model = ''gpt-4o'',
        spans_row.provider = ''openai'', tokens_input = Some 100, tokens_output = Some 50,
        cost_input = Some (1 / 400), cost_output = Some (3 / 400), cost_total = Some (1 / 100), duration_ms = 12\<rparr>,
       \<lparr>time = 1700000002000000, trace_id = ''tr-1'', span_id = ''s3'', span_name = ''openai.chat.completions.create'',
        spans_row.pipeline_id = ''pipe-a'', spans_row.stage = ''extract'', spans_row.model = ''gpt-4o'',
        spans_row.provider = ''openai'', tokens_input = Some 9, tokens_output = Some 9,
        cost_input = None, cost_output = None, cost_total = None, duration_ms = 12\<rparr>,
       \<lparr>time = 1700000001000000, trace_id = ''tr-1'', span_id = ''s2'', span_name = ''openai.chat.completions.create'',
        spans_row.pipeline_id = ''pipe-a'', spans_row.stage = ''extract'', spans_row.model = ''gpt-4o'',
        spans_row.provider = ''openai'', tokens_input = None, tokens_output = Some 7,
        cost_input = Some (1 / 100), cost_output = Some (1 / 100), cost_total = Some (2 / 100), duration_ms = 12\<rparr>] =
     cost_hourly (filter (\<lambda>r. cost_total r \<noteq> None)
      [\<lparr>time = 1700000000000000, trace_id = ''tr-1'', span_id = ''s1'', span_name = ''openai.chat.completions.create'',
        spans_row.pipeline_id = ''pipe-a'', spans_row.stage = ''extract'', spans_row.model = ''gpt-4o'',
        spans_row.provider = ''openai'', tokens_input = Some 100, tokens_output = Some 50,
        cost_input = Some (1 / 400), cost_output = Some (3 / 400), cost_total = Some (1 / 100), duration_ms = 12\<rparr>,
       \<lparr>time = 1700000002000000, trace_id = ''tr-1'', span_id = ''s3'', span_name = ''openai.chat.completions.create'',
        spans_row.pipeline_id = ''pipe-a'', spans_row.stage = ''extract'', spans_row.model = ''gpt-4o'',
        spans_row.provider = ''openai'', tokens_input = Some 9, tokens_output = Some 9,
        cost_input = None, cost_output = None, cost_total = None, duration_ms = 12\<rparr>,
       \<lparr>time = 1700000001000000, trace_id = ''tr-1'', span_id = ''s2'', span_name = ''openai.chat.completions.create'',
        spans_row.pipeline_id = ''pipe-a'', spans_row.stage = ''extract'', spans_row.model = ''gpt-4o'',
        spans_row.provider = ''openai'', tokens_input = None, tokens_output = Some 7,
        cost_input = Some (1 / 100), cost_output = Some (1 / 100), cost_total = Some (2 / 100), duration_ms = 12\<rparr>])"
    using cost_views_skip_null_cost_rows
         [of "[\<lparr>time = 1700000000000000, trace_id = ''tr-1'', span_id = ''s1'', span_name = ''openai.chat.completions.create'',
        spans_row.pipeline_id = ''pipe-a'', spans_row.stage = ''extract'', spans_row.model = ''gpt-4o'',
        spans_row.provider = ''openai'', tokens_input = Some 100, tokens_output = Some 50,
        cost_input = Some (1 / 400), cost_output = Some (3 / 400), cost_total = Some (1 / 100), duration_ms = 12\<rparr>,
       \<lparr>time = 1700000002000000, trace_id = ''tr-1'', span_id = ''s3'', span_name = ''openai.chat.completions.create'',
        spans_row.pipeline_id = ''pipe-a'', spans_row.stage = ''extract'', spans_row.model = ''gpt-4o'',
        spans_row.provider = ''openai'', tokens_input = Some 9, tokens_output = Some 9,
        cost_input = None, cost_output = None, cost_total = None, duration_ms = 12\<rparr>,
       \<lparr>time = 1700000001000000, trace_id = ''tr-1'', span_id = ''s2'', span_name = ''openai.chat.completions.create'',
        spans_row.pipeline_id = ''pipe-a'', spans_row.stage = ''extract'', spans_row.model = ''gpt-4o'',
        spans_row.provider = ''openai'', tokens_input = None, tokens_output = Some 7,
        cost_input = Some (1 / 100), cost_output = Some (1 / 100), cost_total = Some (2 / 100), duration_ms = 12\<rparr>]"]
    by blast
  then have same: "cost_hourly
      [\<lparr>time = 1700000000000000, trace_id = ''tr-1'', span_id = ''s1'', span_name = ''openai.chat.completions.create'',
        spans_row.pipeline_id = ''pipe-a'', spans_row.stage = ''extract'', spans_row.model = ''gpt-4o'',
        spans_row.provider = ''openai'', tokens_input = Some 100, tokens_output = Some 50,
        cost_input = Some (1 / 400), cost_output = Some (3 / 400), cost_total = Some (1 / 100), duration_ms = 12\<rparr>,
       \<lparr>time = 1700000002000000, trace_id = ''tr-1'', span_id = ''s3'', span_name = ''openai.chat.completions.create'',
        spans_row.pipeline_id = ''pipe-a'', spans_row.stage = ''extract'', spans_row.model = ''gpt-4o'',
        spans_row.provider = ''openai'', tokens_input = Some 9, tokens_output = Some 9,
        cost_input = None, cost_output = None, cost_total = None, duration_ms = 12\<rparr>,
       \<lparr>time = 1700000001000000, trace_id = ''tr-1'', span_id = ''s2'', span_name = ''openai.chat.completions.create'',
        spans_row.pipeline_id = ''pipe-a'', spans_row.stage = ''extract'', spans_row.model = ''gpt-4o'',
        spans_row.provider = ''openai'', tokens_input = None, tokens_output = Some 7,
        cost_input = Some (1 / 100), cost_output = Some (1 / 100), cost_total = Some (2 / 100), duration_ms = 12\<rparr>] =
     cost_hourly
      [\<lparr>time = 1700000000000000, trace_id = ''tr-1'', span_id = ''s1'', span_name = ''openai.chat.completions.create'',
        spans_row.pipeline_id = ''pipe-a'', spans_row.stage = ''extract'', spans_row.model = ''gpt-4o'',
        spans_row.provider = ''openai'', tokens_input = Some 100, tokens_output = Some 50,
        cost_input = Some (1 / 400), cost_output = Some (3 / 400), cost_total = Some (1 / 100), duration_ms = 12\<rparr>,
       \<lparr>time = 1700000001000000, trace_id = ''tr-1'', span_id = ''s2'', span_name = ''openai.chat.completions.create'',
        spans_row.pipeline_id = ''pipe-a'', spans_row.stage = ''extract'', spans_row.model = ''gpt-4o'',
        spans_row.provider = ''openai'', tokens_input = None, tokens_output = Some 7,
        cost_input = Some (1 / 100), cost_output = Some (1 / 100), cost_total = Some (2 / 100), duration_ms = 12\<rparr>]"
    unfolding keep .
  from ev same show ?thesis by simp
qed

end
